theory Spec2Isabelle
  imports Complex_Main
begin

section \<open>MimicMotion wrapper nodes (nodes.py)\<close>

text \<open>
  A shallow embedding of the node functions of \<^verbatim>\<open>nodes.py\<close>: the schedule
  interpolation \<^verbatim>\<open>loglinear_interp\<close>, the sigma resolution and the
  precondition of \<^verbatim>\<open>MimicMotionSampler.process\<close>, the decode fallback of
  \<^verbatim>\<open>MimicMotionDecode.process\<close> and the pose rescaling of
  \<^verbatim>\<open>MimicMotionGetPoses.process\<close>.

  Floating-point numbers are modelled as exact reals: rounding, nan and inf have
  no counterpart, so the numeric statements below are statements about the
  arithmetic the code means to perform. Conversions between float widths
  (\<^verbatim>\<open>.float()\<close>, \<^verbatim>\<open>.to(dtype)\<close>) and device moves of
  tensors are the identity in the model.
\<close>

subsection \<open>Exceptions\<close>

datatype exn =
    ValueError
  | IndexError
  | TypeError
  | ZeroDivisionError
  | AssertionError
  | RuntimeError
  | UnboundLocalError
  | External string

subsection \<open>The numpy functions used by the interpolation\<close>

text \<open>
  \<^verbatim>\<open>np.linspace(0, 1, num)\<close>: raises for a negative count, is \<^verbatim>\<open>[0.]\<close> for
  \<^verbatim>\<open>num = 1\<close> (the step is then computed without dividing), and otherwise
  has the entries \<open>i / (num - 1)\<close>.
\<close>

definition grid :: "nat \<Rightarrow> real list" where
  "grid n = (if n = 1 then [0] else map (\<lambda>i. real i / real (n - 1)) [0..<n])"

definition np_linspace01 :: "int \<Rightarrow> exn + real list" where
  "np_linspace01 num = (if num < 0 then Inl ValueError else Inr (grid (nat num)))"

text \<open>
  \<^verbatim>\<open>np.interp(x, xp, fp)\<close> for increasing sample points \<open>xp\<close>: the value
  left of the first sample point is \<open>fp[0]\<close>, the value at or right of the last
  one is \<open>fp[-1]\<close>, a sample point itself yields its own value, and in between
  the two neighbours are joined by a line. \<open>interp_seg\<close> walks the segments from
  the left for an argument that is not below the first sample point.
\<close>

fun interp_seg :: "real \<Rightarrow> real list \<Rightarrow> real list \<Rightarrow> real" where
  "interp_seg x (x0 # x1 # xp) (y0 # y1 # fp) =
     (if x < x1
      then (if x = x0 then y0 else (y1 - y0) / (x1 - x0) * (x - x0) + y0)
      else interp_seg x (x1 # xp) (y1 # fp))"
| "interp_seg x [x0] [y0] = y0"
| "interp_seg x xp fp = 0"

definition interp_fun :: "real list \<Rightarrow> real list \<Rightarrow> real \<Rightarrow> real" where
  "interp_fun xp fp v = (if v < hd xp then hd fp else interp_seg v xp fp)"

definition np_interp :: "real list \<Rightarrow> real list \<Rightarrow> real list \<Rightarrow> exn + real list" where
  "np_interp x xp fp =
     (if xp = [] then Inl ValueError
      else if length fp \<noteq> length xp then Inl ValueError
      else Inr (map (interp_fun xp fp) x))"

subsection \<open>loglinear\_interp\<close>

text \<open>
  \<^verbatim>\<open>
  def loglinear_interp(t_steps, num_steps):
      xs = np.linspace(0, 1, len(t_steps))
      ys = np.log(t_steps[::-1])
      new_xs = np.linspace(0, 1, num_steps)
      new_ys = np.interp(new_xs, xs, ys)
      interped_ys = np.exp(new_ys)[::-1].copy()
      return interped_ys
  \<close>
  The first \<^verbatim>\<open>linspace\<close> cannot raise, its count being a length.
\<close>

definition loglinear_interp :: "real list \<Rightarrow> int \<Rightarrow> exn + real list" where
  "loglinear_interp t_steps num_steps =
     (case np_linspace01 (int (length t_steps)) of
        Inl e \<Rightarrow> Inl e
      | Inr xs \<Rightarrow>
          (let ys = map ln (rev t_steps) in
           case np_linspace01 num_steps of
             Inl e \<Rightarrow> Inl e
           | Inr new_xs \<Rightarrow>
               (case np_interp new_xs xs ys of
                  Inl e \<Rightarrow> Inl e
                | Inr new_ys \<Rightarrow> Inr (rev (map exp new_ys)))))"


subsection \<open>Exceptions and effects\<close>

text \<open>
  A node function runs on a state (the shared pipeline object, the log of calls
  into external components) and either returns a value or raises. An exception
  leaves the state as it was when it was raised.
\<close>

type_synonym ('s, 'a) prog = "'s \<Rightarrow> (exn + 'a) \<times> 's"

definition retp :: "'a \<Rightarrow> ('s, 'a) prog" where
  "retp x s = (Inr x, s)"

definition raisep :: "exn \<Rightarrow> ('s, 'a) prog" where
  "raisep e s = (Inl e, s)"

definition liftp :: "exn + 'a \<Rightarrow> ('s, 'a) prog" where
  "liftp r s = (r, s)"

definition bindp :: "('s, 'a) prog \<Rightarrow> ('a \<Rightarrow> ('s, 'b) prog) \<Rightarrow> ('s, 'b) prog" where
  "bindp m f s = (case m s of (Inl e, s') \<Rightarrow> (Inl e, s') | (Inr x, s') \<Rightarrow> f x s')"

definition getp :: "('s, 's) prog" where
  "getp s = (Inr s, s)"

definition modifyp :: "('s \<Rightarrow> 's) \<Rightarrow> ('s, unit) prog" where
  "modifyp g s = (Inr (), g s)"

text \<open>\<^verbatim>\<open>assert c, msg\<close>\<close>

definition assertp :: "bool \<Rightarrow> ('s, unit) prog" where
  "assertp c = (if c then retp () else raisep AssertionError)"

text \<open>A bare \<^verbatim>\<open>try: m except: h\<close>: every exception of \<open>m\<close> is caught.\<close>

definition catchp :: "('s, 'a) prog \<Rightarrow> ('s, 'a) prog \<Rightarrow> ('s, 'a) prog" where
  "catchp m h s = (case m s of (Inl e, s') \<Rightarrow> h s' | (Inr x, s') \<Rightarrow> (Inr x, s'))"

text \<open>A \<^verbatim>\<open>for\<close> loop that appends one result per element.\<close>

fun mapMp :: "('a \<Rightarrow> ('s, 'b) prog) \<Rightarrow> 'a list \<Rightarrow> ('s, 'b list) prog" where
  "mapMp f [] = retp []"
| "mapMp f (x # xs) = bindp (f x) (\<lambda>y. bindp (mapMp f xs) (\<lambda>ys. retp (y # ys)))"

subsection \<open>Tensors\<close>

text \<open>
  A host image batch is a 4-dimensional tensor \<open>[B, H, W, C]\<close>; one frame of it
  is 3-dimensional.
\<close>

record tensor4 =
  shape4 :: "nat \<times> nat \<times> nat \<times> nat"
  data4 :: "nat \<Rightarrow> nat \<Rightarrow> nat \<Rightarrow> nat \<Rightarrow> real"

record tensor3 =
  shape3 :: "nat \<times> nat \<times> nat"
  data3 :: "nat \<Rightarrow> nat \<Rightarrow> nat \<Rightarrow> real"

text \<open>\<^verbatim>\<open>t.permute(0, 3, 1, 2)\<close>\<close>

definition permute_0312 :: "tensor4 \<Rightarrow> tensor4" where
  "permute_0312 t =
     (case shape4 t of (d0, d1, d2, d3) \<Rightarrow>
        \<lparr>shape4 = (d0, d3, d1, d2), data4 = (\<lambda>i c h w. data4 t i h w c)\<rparr>)"

text \<open>\<^verbatim>\<open>t * k + c\<close>, elementwise\<close>

definition scale4 :: "real \<Rightarrow> real \<Rightarrow> tensor4 \<Rightarrow> tensor4" where
  "scale4 k c t = t\<lparr>data4 := (\<lambda>i h w ch. data4 t i h w ch * k + c)\<rparr>"

definition scale3 :: "real \<Rightarrow> tensor3 \<Rightarrow> tensor3" where
  "scale3 k t = t\<lparr>data3 := (\<lambda>h w ch. data3 t h w ch * k)\<rparr>"

text \<open>Iterating over a batch yields its frames along the first axis.\<close>

definition frames4 :: "tensor4 \<Rightarrow> tensor3 list" where
  "frames4 t =
     (case shape4 t of (d0, d1, d2, d3) \<Rightarrow>
        map (\<lambda>i. \<lparr>shape3 = (d1, d2, d3), data3 = data4 t i\<rparr>) [0..<d0])"

subsection \<open>DiffusersScheduler.loadmodel\<close>

datatype sched =
    EulerDiscreteScheduler real real
  | AnimateLCM_SVD real real

record 'sch scheduler_options =
  noise_scheduler :: 'sch
  sigmas :: "real list option"

text \<open>The fixed table of the align-your-steps mode.\<close>

definition ays_sigmas :: "real list" where
  "ays_sigmas = [700.00, 54.5, 15.886, 7.977, 4.248, 1.789, 0.981, 0.403, 0.173, 0.034, 0.002]"

text \<open>
  The constructors carry \<open>sigma_min\<close> and \<open>sigma_max\<close>, the two configuration
  values the caller chooses. A scheduler name other than the two offered leaves
  \<^verbatim>\<open>noise_scheduler\<close> unbound when the options are built.
\<close>

definition DiffusersScheduler_loadmodel ::
    "string \<Rightarrow> real \<Rightarrow> real \<Rightarrow> bool \<Rightarrow> exn + sched scheduler_options" where
  "DiffusersScheduler_loadmodel scheduler_name sigma_min sigma_max align_your_steps =
     (if scheduler_name = ''EulerDiscreteScheduler''
      then Inr \<lparr>noise_scheduler = EulerDiscreteScheduler sigma_min sigma_max,
                sigmas = (if align_your_steps then Some ays_sigmas else None)\<rparr>
      else if scheduler_name = ''AnimateLCM_SVD''
      then Inr \<lparr>noise_scheduler = AnimateLCM_SVD sigma_min sigma_max,
                sigmas = (if align_your_steps then Some ays_sigmas else None)\<rparr>
      else Inl UnboundLocalError)"

subsection \<open>MimicMotionSampler.process\<close>

text \<open>\<^verbatim>\<open>xs[i:]\<close> with Python's reading of a negative start.\<close>

definition py_slice_from :: "'a list \<Rightarrow> int \<Rightarrow> 'a list" where
  "py_slice_from xs i =
     (if i < 0 then drop (nat (int (length xs) + i)) xs else drop (nat i) xs)"

text \<open>\<^verbatim>\<open>xs[-1] = v\<close>\<close>

definition set_last :: "'a list \<Rightarrow> 'a \<Rightarrow> exn + 'a list" where
  "set_last xs v = (if xs = [] then Inl IndexError else Inr (xs[length xs - 1 := v]))"

text \<open>
  Lines 267 to 273: the sigma table of the optional scheduler, re-interpolated
  when its length is not \<open>steps + 1\<close>.
  \<^verbatim>\<open>
  sigmas = optional_scheduler['sigmas']
  if sigmas is not None and (steps + 1) != len(sigmas):
      sigmas = loglinear_interp(sigmas, steps + 1)
      sigmas = sigmas[-(steps + 1):]
      sigmas[-1] = 0
  \<close>
\<close>

definition resolve_sigmas :: "real list option \<Rightarrow> int \<Rightarrow> exn + real list option" where
  "resolve_sigmas tbl steps =
     (case tbl of
        None \<Rightarrow> Inr None
      | Some t \<Rightarrow>
          if steps + 1 \<noteq> int (length t)
          then (case loglinear_interp t (steps + 1) of
                  Inl e \<Rightarrow> Inl e
                | Inr s1 \<Rightarrow>
                    (case set_last (py_slice_from s1 (- (steps + 1))) 0 of
                       Inl e \<Rightarrow> Inl e
                     | Inr s2 \<Rightarrow> Inr (Some s2)))
          else Inr (Some t))"

datatype device = Torch_Device | Offload_Device

text \<open>The pipeline object of the bundle, as far as this file reads or writes it.\<close>

record 'sch pipeline_obj =
  scheduler :: 'sch
  unet_device :: device
  vae_device :: device

text \<open>One invocation of the pipeline: the scheduler installed at that moment and
  the arguments of the call.\<close>

record 'sch pipe_call =
  call_scheduler :: 'sch
  call_image :: tensor4
  image_pose :: tensor4
  num_frames :: nat
  tile_size :: int
  tile_overlap :: int
  height :: nat
  width :: nat
  fps :: int
  noise_aug_strength :: real
  num_inference_steps :: int
  generator_seed :: int
  min_guidance_scale :: real
  max_guidance_scale :: real
  decode_chunk_size :: int
  call_sigmas :: "real list option"

record 'sch sampler_state =
  pipeline :: "'sch pipeline_obj"
  pipeline_calls :: "'sch pipe_call list"

definition set_scheduler :: "'sch \<Rightarrow> ('sch sampler_state, unit) prog" where
  "set_scheduler sch = modifyp (\<lambda>s. s\<lparr>pipeline := (pipeline s)\<lparr>scheduler := sch\<rparr>\<rparr>)"

text \<open>
  The call into the external pipeline: \<open>run\<close> stands for its denoising loop, which
  sees the scheduler installed on the pipeline object at that moment. Every
  invocation is logged.
\<close>

definition call_pipeline ::
    "('sch pipe_call \<Rightarrow> exn + 'lat) \<Rightarrow> ('sch \<Rightarrow> 'sch pipe_call) \<Rightarrow> ('sch sampler_state, 'lat) prog" where
  "call_pipeline run mk =
     bindp getp (\<lambda>s.
       let c = mk (scheduler (pipeline s))
       in bindp (modifyp (\<lambda>s. s\<lparr>pipeline_calls := pipeline_calls s @ [c]\<rparr>))
            (\<lambda>_. liftp (run c)))"

text \<open>
  \<^verbatim>\<open>pipeline.unet.to(offload_device); pipeline.vae.to(offload_device)\<close>
\<close>

definition offload_models :: "('sch sampler_state, unit) prog" where
  "offload_models =
     modifyp (\<lambda>s. s\<lparr>pipeline := (pipeline s)\<lparr>unet_device := Offload_Device,
                                                 vae_device := Offload_Device\<rparr>\<rparr>)"

text \<open>
  \<^verbatim>\<open>
  original_scheduler = pipeline.scheduler
  if optional_scheduler is not None:
      pipeline.scheduler = optional_scheduler['noise_scheduler']
      sigmas = ... (resolve_sigmas)
  else:
      pipeline.scheduler = original_scheduler
      sigmas = None
  B, H, W, C = pose_images.shape
  assert B >= context_size, "The number of poses must be greater than the context size"
  ref_image = ref_image.permute(0, 3, 1, 2)
  pose_images = pose_images.permute(0, 3, 1, 2)
  pose_images = pose_images * 2 - 1
  frames = pipeline(ref_image, image_pose=pose_images, num_frames=B, ...).frames
  if not keep_model_loaded:
      pipeline.unet.to(offload_device)
      pipeline.vae.to(offload_device)
  return {"samples": frames},
  \<close>
  The host's cache and garbage-collection calls have no counterpart here.
\<close>

definition MimicMotionSampler_process ::
    "('sch pipe_call \<Rightarrow> exn + 'lat) \<Rightarrow> tensor4 \<Rightarrow> tensor4 \<Rightarrow> real \<Rightarrow> real \<Rightarrow> int \<Rightarrow> int \<Rightarrow> real
       \<Rightarrow> int \<Rightarrow> bool \<Rightarrow> int \<Rightarrow> int \<Rightarrow> 'sch scheduler_options option
       \<Rightarrow> ('sch sampler_state, 'lat) prog" where
  "MimicMotionSampler_process run ref_image pose_images cfg_min cfg_max steps seed noise_aug
       fps_in keep_model_loaded context_size context_overlap optional_scheduler =
     bindp getp (\<lambda>s0.
       let original_scheduler = scheduler (pipeline s0) in
       bindp (case optional_scheduler of
                Some opt \<Rightarrow>
                  bindp (set_scheduler (noise_scheduler opt))
                    (\<lambda>_. liftp (resolve_sigmas (sigmas opt) steps))
              | None \<Rightarrow> bindp (set_scheduler original_scheduler) (\<lambda>_. retp None))
         (\<lambda>sigmas_r.
            case shape4 pose_images of (B, H, W, C) \<Rightarrow>
              bindp (assertp (int B \<ge> context_size)) (\<lambda>_.
                let ref_image' = permute_0312 ref_image;
                    pose_images' = scale4 2 (- 1) (permute_0312 pose_images)
                in bindp (call_pipeline run (\<lambda>sch.
                            \<lparr>call_scheduler = sch, call_image = ref_image',
                             image_pose = pose_images', num_frames = B,
                             tile_size = context_size, tile_overlap = context_overlap,
                             height = H, width = W, fps = fps_in,
                             noise_aug_strength = noise_aug, num_inference_steps = steps,
                             generator_seed = seed, min_guidance_scale = cfg_min,
                             max_guidance_scale = cfg_max, decode_chunk_size = 4,
                             call_sigmas = sigmas_r\<rparr>))
                     (\<lambda>frames.
                        bindp (if \<not> keep_model_loaded then offload_models else retp ())
                          (\<lambda>_. retp frames)))))"

subsection \<open>MimicMotionDecode.process\<close>

text \<open>
  The decoder of the external pipeline may fail for reasons outside the arguments
  (memory), so it runs on a state \<open>'w\<close> of its own; every call is logged with its
  chunk size.
\<close>

record 'w decode_state =
  decoder_world :: 'w
  decode_calls :: "int list"

definition call_decode ::
    "('l list \<Rightarrow> nat \<Rightarrow> int \<Rightarrow> 'w \<Rightarrow> (exn + 'd) \<times> 'w) \<Rightarrow> 'l list \<Rightarrow> nat \<Rightarrow> int
       \<Rightarrow> ('w decode_state, 'd) prog" where
  "call_decode decode_latents samples n chunk s =
     (case decode_latents samples n chunk (decoder_world s) of
        (r, w') \<Rightarrow> (r, \<lparr>decoder_world = w', decode_calls = decode_calls s @ [chunk]\<rparr>))"

text \<open>
  \<^verbatim>\<open>
  num_frames = samples['samples'].shape[0]
  try:
      frames = pipeline.decode_latents(samples['samples'], num_frames, decode_chunk_size)
  except:
      frames = pipeline.decode_latents(samples['samples'], num_frames, 1)
  frames = tensor2vid(frames, pipeline.image_processor, output_type="pt")
  frames = frames.squeeze(1)[1:].permute(0, 2, 3, 1).cpu().float()
  return frames,
  \<close>
  The latents and the video are sequences along their first axis: \<open>tensor2vid\<close>
  yields the decoded frames, \<open>[1:]\<close> drops the first of them, and \<open>to_hwc\<close> is
  the change of layout of one frame (\<^verbatim>\<open>squeeze\<close> and \<^verbatim>\<open>permute\<close> leave
  the first axis alone).
\<close>

definition MimicMotionDecode_process ::
    "('l list \<Rightarrow> nat \<Rightarrow> int \<Rightarrow> 'w \<Rightarrow> (exn + 'd) \<times> 'w) \<Rightarrow> ('d \<Rightarrow> exn + 'v list) \<Rightarrow> ('v \<Rightarrow> 'f)
       \<Rightarrow> 'l list \<Rightarrow> int \<Rightarrow> ('w decode_state, 'f list) prog" where
  "MimicMotionDecode_process decode_latents tensor2vid to_hwc samples chunk_size =
     (let n = length samples in
      bindp (catchp (call_decode decode_latents samples n chunk_size)
                    (call_decode decode_latents samples n 1))
        (\<lambda>frames. bindp (liftp (tensor2vid frames))
           (\<lambda>vid. retp (map to_hwc (drop 1 vid)))))"

subsection \<open>MimicMotionGetPoses.process\<close>

type_synonym point = "real \<times> real"

text \<open>
  The detector's result for one image, as far as this file reads it: the body
  keypoints with their per-person scores, and the face and hand keypoints.
\<close>

record bodies_rec =
  candidate :: "point list"
  score :: "real list list"

record pose =
  bodies :: bodies_rec
  faces :: "point list list"
  hands :: "point list list"

datatype ndarray = A3 tensor3 | A4 tensor4

text \<open>The calls into external components, in the order they happen.\<close>

datatype event = Download string | Detect ndarray | Draw pose

text \<open>\<^verbatim>\<open>ref_image.squeeze(0)\<close>: the first axis goes only if its size is 1.\<close>

definition squeeze0 :: "tensor4 \<Rightarrow> ndarray" where
  "squeeze0 t =
     (case shape4 t of (d0, d1, d2, d3) \<Rightarrow>
        if d0 = 1 then A3 \<lparr>shape3 = (d1, d2, d3), data3 = data4 t 0\<rparr> else A4 t)"

definition scale_nd :: "real \<Rightarrow> ndarray \<Rightarrow> ndarray" where
  "scale_nd k a = (case a of A3 t \<Rightarrow> A3 (scale3 k t) | A4 t \<Rightarrow> A4 (scale4 k 0 t))"

text \<open>\<^verbatim>\<open>height, width, _ = ref_image.shape\<close>\<close>

definition unpack_hw :: "ndarray \<Rightarrow> exn + nat \<times> nat" where
  "unpack_hw a =
     (case a of A3 t \<Rightarrow> (case shape3 t of (h, w, c) \<Rightarrow> Inr (h, w)) | A4 t \<Rightarrow> Inl ValueError)"

text \<open>\<^verbatim>\<open>t.shape[1:3]\<close>\<close>

definition shape_1_3 :: "tensor4 \<Rightarrow> nat \<times> nat" where
  "shape_1_3 t = (case shape4 t of (d0, d1, d2, d3) \<Rightarrow> (d1, d2))"

definition detect :: "(ndarray \<Rightarrow> exn + pose) \<Rightarrow> ndarray \<Rightarrow> (event list, pose) prog" where
  "detect dwprocessor img =
     bindp (modifyp (\<lambda>l. l @ [Detect img])) (\<lambda>_. liftp (dwprocessor img))"

definition draw ::
    "(pose \<Rightarrow> nat \<Rightarrow> nat \<Rightarrow> bool \<Rightarrow> bool \<Rightarrow> bool \<Rightarrow> exn + tensor3) \<Rightarrow> pose \<Rightarrow> nat \<Rightarrow> nat
       \<Rightarrow> bool \<Rightarrow> bool \<Rightarrow> bool \<Rightarrow> (event list, tensor3) prog" where
  "draw draw_pose p h w include_body include_hand include_face =
     bindp (modifyp (\<lambda>l. l @ [Draw p]))
       (\<lambda>_. liftp (draw_pose p h w include_body include_hand include_face))"

text \<open>The download of a detector model that is not on disk.\<close>

definition ensure_model :: "(string \<Rightarrow> bool) \<Rightarrow> string \<Rightarrow> (event list, unit) prog" where
  "ensure_model path_exists name =
     (if \<not> path_exists name then modifyp (\<lambda>l. l @ [Download name]) else retp ())"

text \<open>
  \<^verbatim>\<open>
  ref_keypoint_id = [0, 1, 2, 5, 8, 11, 14, 15, 16, 17]
  ref_keypoint_id = [i for i in ref_keypoint_id
      if ref_pose['bodies']['score'].shape[0] > 0 and ref_pose['bodies']['score'][0][i] > 0.3]
  \<close>
\<close>

definition base_keypoint_id :: "nat list" where
  "base_keypoint_id = [0, 1, 2, 5, 8, 11, 14, 15, 16, 17]"

definition ref_keypoint_ids :: "real list list \<Rightarrow> exn + nat list" where
  "ref_keypoint_ids sc =
     (case sc of
        [] \<Rightarrow> Inr []
      | row # _ \<Rightarrow>
          if list_all (\<lambda>i. i < length row) base_keypoint_id
          then Inr (filter (\<lambda>i. row ! i > 0.3) base_keypoint_id)
          else Inl IndexError)"

text \<open>\<^verbatim>\<open>arr[ids]\<close> for a list of row indices\<close>

definition take_rows :: "'a list \<Rightarrow> nat list \<Rightarrow> exn + 'a list" where
  "take_rows arr ids =
     (if list_all (\<lambda>i. i < length arr) ids then Inr (map (\<lambda>i. arr ! i) ids) else Inl IndexError)"

text \<open>\<^verbatim>\<open>np.stack\<close> of arrays of one shape: only the empty list is refused.\<close>

definition np_stack :: "'a list \<Rightarrow> exn + 'a list" where
  "np_stack xs = (if xs = [] then Inl ValueError else Inr xs)"

definition np_tile :: "'a list \<Rightarrow> nat \<Rightarrow> 'a list" where
  "np_tile xs n = concat (replicate n xs)"

definition np_mean :: "real list \<Rightarrow> real" where
  "np_mean xs = sum_list xs / real (length xs)"

text \<open>
  \<^verbatim>\<open>np.polyfit(x, y, 1)\<close> refuses an empty \<open>x\<close> and vectors of different
  lengths; \<open>lstsq\<close> stands for the least-squares solver, which yields slope and
  intercept.
\<close>

definition np_polyfit1 ::
    "(real list \<Rightarrow> real list \<Rightarrow> exn + real \<times> real) \<Rightarrow> real list \<Rightarrow> real list \<Rightarrow> exn + real \<times> real" where
  "np_polyfit1 lstsq x y =
     (if x = [] then Inl TypeError
      else if length x \<noteq> length y then Inl TypeError
      else lstsq x y)"

text \<open>
  Lines 422 to 424: the body keypoints that enter the fit.
  \<^verbatim>\<open>
  detected_bodies = np.stack(
      [p['bodies']['candidate'] for p in detected_poses_np_list
       if p['bodies']['candidate'].shape[0] == 18])[:, ref_keypoint_id]
  \<close>
  Every stacked array has 18 rows and every index is below 18, so the selection
  cannot fail.
\<close>

definition has_18 :: "pose \<Rightarrow> bool" where
  "has_18 p = (length (candidate (bodies p)) = 18)"

definition detected_bodies_of :: "nat list \<Rightarrow> pose list \<Rightarrow> exn + point list list" where
  "detected_bodies_of ref_keypoint_id detected_poses =
     (case np_stack (map (\<lambda>p. candidate (bodies p)) (filter has_18 detected_poses)) of
        Inl e \<Rightarrow> Inl e
      | Inr st \<Rightarrow> Inr (map (\<lambda>c. map (\<lambda>i. c ! i) ref_keypoint_id) st))"

text \<open>The two vectors handed to \<^verbatim>\<open>np.polyfit\<close>.\<close>

definition fit_x :: "point list list \<Rightarrow> real list" where
  "fit_x detected_bodies = concat (map (map snd) detected_bodies)"

definition fit_y :: "point list \<Rightarrow> point list list \<Rightarrow> real list" where
  "fit_y ref_body detected_bodies = np_tile (map snd ref_body) (length detected_bodies)"

text \<open>
  \<^verbatim>\<open>ax = ay / (fh / fw / height * width)\<close>: the sizes are Python integers, so
  a zero \<open>fw\<close> or \<open>height\<close> raises.
\<close>

definition x_scale :: "real \<Rightarrow> nat \<Rightarrow> nat \<Rightarrow> nat \<Rightarrow> nat \<Rightarrow> exn + real" where
  "x_scale ay fh fw h w =
     (if fw = 0 \<or> h = 0 then Inl ZeroDivisionError
      else Inr (ay / (real fh / real fw / real h * real w)))"

text \<open>
  Lines 426 to 431:
  \<^verbatim>\<open>
  ay, by = np.polyfit(detected_bodies[:, :, 1].flatten(),
                      np.tile(ref_body[:, 1], len(detected_bodies)), 1)
  fh, fw, _ = pose_images_np[0].shape
  ax = ay / (fh / fw / height * width)
  bx = np.mean(np.tile(ref_body[:, 0], len(detected_bodies))
               - detected_bodies[:, :, 0].flatten() * ax)
  a = np.array([ax, ay])
  b = np.array([bx, by])
  \<close>
\<close>

definition rescale_params ::
    "(real list \<Rightarrow> real list \<Rightarrow> exn + real \<times> real) \<Rightarrow> point list \<Rightarrow> point list list
       \<Rightarrow> tensor3 list \<Rightarrow> nat \<Rightarrow> nat \<Rightarrow> exn + point \<times> point" where
  "rescale_params lstsq ref_body detected_bodies pose_images_np h w =
     (case np_polyfit1 lstsq (fit_x detected_bodies) (fit_y ref_body detected_bodies) of
        Inl e \<Rightarrow> Inl e
      | Inr (ay, by) \<Rightarrow>
          (case pose_images_np of
             [] \<Rightarrow> Inl IndexError
           | img # _ \<Rightarrow>
               (case shape3 img of (fh, fw, c) \<Rightarrow>
                  (case x_scale ay fh fw h w of
                     Inl e \<Rightarrow> Inl e
                   | Inr ax \<Rightarrow>
                       let bx = np_mean (map2 (\<lambda>r d. r - d * ax)
                                  (np_tile (map fst ref_body) (length detected_bodies))
                                  (concat (map (map fst) detected_bodies)))
                       in Inr ((ax, ay), (bx, by))))))"

text \<open>\<^verbatim>\<open>keypoints * a + b\<close>, broadcast over the last axis\<close>

definition affine :: "point \<Rightarrow> point \<Rightarrow> point \<Rightarrow> point" where
  "affine a b p = (fst p * fst a + fst b, snd p * snd a + snd b)"

text \<open>
  The body of the rescale loop, lines 435 to 440:
  \<^verbatim>\<open>
  if include_body:
      detected_pose['bodies']['candidate'] = detected_pose['bodies']['candidate'] * a + b
  if include_hand:
      detected_pose['faces'] = detected_pose['faces'] * a + b
  if include_face:
      detected_pose['hands'] = detected_pose['hands'] * a + b
  \<close>
\<close>

definition rescale_pose :: "point \<Rightarrow> point \<Rightarrow> bool \<Rightarrow> bool \<Rightarrow> bool \<Rightarrow> pose \<Rightarrow> pose" where
  "rescale_pose a b include_body include_hand include_face detected_pose =
     (let p1 = (if include_body
                then detected_pose\<lparr>bodies := (bodies detected_pose)
                       \<lparr>candidate := map (affine a b) (candidate (bodies detected_pose))\<rparr>\<rparr>
                else detected_pose);
          p2 = (if include_hand
                then p1\<lparr>faces := map (map (affine a b)) (faces p1)\<rparr>
                else p1);
          p3 = (if include_face
                then p2\<lparr>hands := map (map (affine a b)) (hands p2)\<rparr>
                else p2)
      in p3)"

text \<open>\<^verbatim>\<open>torch.stack\<close>: the list must not be empty and the shapes must agree.\<close>

definition torch_stack :: "tensor3 list \<Rightarrow> exn + tensor3 list" where
  "torch_stack ts =
     (case ts of
        [] \<Rightarrow> Inl RuntimeError
      | t # rest \<Rightarrow> if list_all (\<lambda>u. shape3 u = shape3 t) rest then Inr ts else Inl RuntimeError)"

text \<open>\<^verbatim>\<open>torch.cat((t.unsqueeze(0), batch))\<close>\<close>

definition torch_cat_front :: "tensor3 \<Rightarrow> tensor3 list \<Rightarrow> exn + tensor3 list" where
  "torch_cat_front t batch =
     (if list_all (\<lambda>u. shape3 u = shape3 t) batch then Inr (t # batch) else Inl RuntimeError)"

text \<open>\<^verbatim>\<open>permute(0, 2, 3, 1)\<close> on one frame of the batch\<close>

definition permute_frame :: "tensor3 \<Rightarrow> tensor3" where
  "permute_frame t =
     (case shape3 t of (d1, d2, d3) \<Rightarrow>
        \<lparr>shape3 = (d2, d3, d1), data3 = (\<lambda>h w c. data3 t c h w)\<rparr>)"

text \<open>
  The node function. A batch of images that leaves the node is the list of its
  frames. The detector returns a fresh pose for every call, so the in-place
  rescaling of one pose touches no other.
\<close>

definition MimicMotionGetPoses_process ::
    "(string \<Rightarrow> bool) \<Rightarrow> (ndarray \<Rightarrow> exn + pose)
       \<Rightarrow> (pose \<Rightarrow> nat \<Rightarrow> nat \<Rightarrow> bool \<Rightarrow> bool \<Rightarrow> bool \<Rightarrow> exn + tensor3)
       \<Rightarrow> (real list \<Rightarrow> real list \<Rightarrow> exn + real \<times> real)
       \<Rightarrow> tensor4 \<Rightarrow> tensor4 \<Rightarrow> bool \<Rightarrow> bool \<Rightarrow> bool
       \<Rightarrow> (event list, tensor3 list \<times> tensor3 list) prog" where
  "MimicMotionGetPoses_process path_exists dwprocessor draw_pose lstsq
       ref_image pose_images include_body include_hand include_face =
     bindp (assertp (shape_1_3 ref_image = shape_1_3 pose_images)) (\<lambda>_.
     bindp (ensure_model path_exists ''yolox_l.onnx'') (\<lambda>_.
     bindp (ensure_model path_exists ''dw-ll_ucoco_384.onnx'') (\<lambda>_.
     let ref_image_np = scale_nd 255 (squeeze0 ref_image) in
     bindp (detect dwprocessor ref_image_np) (\<lambda>ref_pose.
     bindp (liftp (ref_keypoint_ids (score (bodies ref_pose)))) (\<lambda>ref_keypoint_id.
     bindp (liftp (take_rows (candidate (bodies ref_pose)) ref_keypoint_id)) (\<lambda>ref_body.
     bindp (liftp (unpack_hw ref_image_np)) (\<lambda>(h, w).
     let pose_images_np = map (scale3 255) (frames4 pose_images) in
     bindp (mapMp (\<lambda>img_np. detect dwprocessor (A3 img_np)) pose_images_np)
       (\<lambda>detected_poses_np_list.
     bindp (liftp (detected_bodies_of ref_keypoint_id detected_poses_np_list))
       (\<lambda>detected_bodies.
     bindp (liftp (rescale_params lstsq ref_body detected_bodies pose_images_np h w))
       (\<lambda>(a, b).
     bindp (mapMp (\<lambda>detected_pose.
              draw draw_pose (rescale_pose a b include_body include_hand include_face detected_pose)
                h w include_body include_hand include_face) detected_poses_np_list)
       (\<lambda>output_pose.
     bindp (liftp (torch_stack (map (scale3 (1 / 255)) output_pose))) (\<lambda>output_tensor.
     bindp (draw draw_pose ref_pose h w include_body include_hand include_face)
       (\<lambda>ref_pose_img.
     bindp (liftp (torch_cat_front (scale3 (1 / 255) ref_pose_img) output_tensor))
       (\<lambda>output_tensor.
     let output_tensor = map permute_frame output_tensor
     in retp (output_tensor, drop 1 output_tensor)))))))))))))))"

subsection \<open>Logs and a sample run\<close>

text \<open>A program of the pose node only ever appends to the log of external calls.\<close>

definition appends_only :: "(event list, 'a) prog \<Rightarrow> bool" where
  "appends_only m = (\<forall>l. \<exists>t. snd (m l) = l @ t)"

text \<open>
  Stand-ins for the external components, to exhibit concrete runs of the pose
  node: a detector that finds 18 body keypoints in a black image and 17 in any
  other, a drawing routine whose picture records how many body keypoints it was
  given, a solver that answers slope 1 and intercept 0, a file system that holds
  every model, a reference image, and a batch of two pose images of which the
  first is black.
\<close>

definition demo_pose :: "nat \<Rightarrow> pose" where
  "demo_pose n =
     \<lparr>bodies = \<lparr>candidate = replicate n (1, 1), score = [replicate 18 1]\<rparr>,
      faces = [[(2, 3)]], hands = [[(4, 5)]]\<rparr>"

definition demo_detector :: "ndarray \<Rightarrow> exn + pose" where
  "demo_detector a =
     (case a of
        A3 t \<Rightarrow> Inr (demo_pose (if data3 t 0 0 0 = 0 then 18 else 17))
      | A4 t \<Rightarrow> Inl TypeError)"

definition demo_draw :: "pose \<Rightarrow> nat \<Rightarrow> nat \<Rightarrow> bool \<Rightarrow> bool \<Rightarrow> bool \<Rightarrow> exn + tensor3" where
  "demo_draw p h w include_body include_hand include_face =
     Inr \<lparr>shape3 = (3, h, w), data3 = (\<lambda>c y x. real (length (candidate (bodies p))))\<rparr>"

definition demo_lstsq :: "real list \<Rightarrow> real list \<Rightarrow> exn + real \<times> real" where
  "demo_lstsq x y = Inr (1, 0)"

definition demo_exists :: "string \<Rightarrow> bool" where
  "demo_exists name = True"

definition demo_ref :: tensor4 where
  "demo_ref = \<lparr>shape4 = (1, 2, 2, 3), data4 = (\<lambda>i h w c. 0)\<rparr>"

definition demo_poses :: tensor4 where
  "demo_poses = \<lparr>shape4 = (2, 2, 2, 3), data4 = (\<lambda>i h w c. real i)\<rparr>"

text \<open>A batch of two pose images in neither of which the detector finds 18 keypoints.\<close>

definition demo_poses_incomplete :: tensor4 where
  "demo_poses_incomplete = \<lparr>shape4 = (2, 2, 2, 3), data4 = (\<lambda>i h w c. 1)\<rparr>"

section \<open>Properties\<close>

subsection \<open>Schedule interpolation\<close>

lemma length_grid: "length (grid n) = n"
  by (simp add: grid_def)

lemma grid_strict: "sorted_wrt (<) (grid n)"
  by (auto simp: grid_def sorted_wrt_map sorted_wrt_iff_nth_less divide_strict_right_mono)

lemma hd_grid: "0 < n \<Longrightarrow> hd (grid n) = 0"
  by (auto simp: grid_def hd_map upt_conv_Cons)

lemma last_grid: "2 \<le> n \<Longrightarrow> last (grid n) = 1"
  by (auto simp: grid_def last_map)

lemma grid_nonneg: "x \<in> set (grid n) \<Longrightarrow> 0 \<le> x"
  by (auto simp: grid_def split: if_splits)

lemma interp_seg_lower:
  "sorted_wrt (<) xp \<Longrightarrow> sorted fp \<Longrightarrow> length fp = length xp \<Longrightarrow> xp \<noteq> [] \<Longrightarrow> hd xp \<le> x
     \<Longrightarrow> hd fp \<le> interp_seg x xp fp"
proof (induction x xp fp rule: interp_seg.induct)
  case (1 x x0 x1 xp y0 y1 fp)
  show ?case
  proof (cases "x < x1")
    case True
    have "0 \<le> (y1 - y0) / (x1 - x0) * (x - x0)"
      using 1 True by (intro mult_nonneg_nonneg divide_nonneg_nonneg) auto
    then show ?thesis using True by simp
  next
    case False
    then have "y1 \<le> interp_seg x (x1 # xp) (y1 # fp)" using 1 by simp
    then show ?thesis using 1 False by simp
  qed
qed simp_all

lemma seg_upper:
  assumes "x0 < x1" "y0 \<le> y1" "x0 \<le> x" "x < (x1::real)"
  shows "(y1 - y0) / (x1 - x0) * (x - x0) + y0 \<le> y1"
proof -
  have "(x - x0) / (x1 - x0) \<le> 1" using assms by simp
  then have "(y1 - y0) * ((x - x0) / (x1 - x0)) \<le> (y1 - y0) * 1"
    using assms by (intro mult_left_mono) auto
  then show ?thesis by (simp add: field_simps)
qed

lemma interp_seg_mono:
  "sorted_wrt (<) xp \<Longrightarrow> sorted fp \<Longrightarrow> length fp = length xp \<Longrightarrow> xp \<noteq> [] \<Longrightarrow> hd xp \<le> x
     \<Longrightarrow> x \<le> x' \<Longrightarrow> interp_seg x xp fp \<le> interp_seg x' xp fp"
proof (induction x xp fp rule: interp_seg.induct)
  case (1 x x0 x1 xp y0 y1 fp)
  have slope: "0 \<le> (y1 - y0) / (x1 - x0)" using 1 by (intro divide_nonneg_nonneg) auto
  show ?case
  proof (cases "x < x1")
    case True
    note xlt = True
    show ?thesis
    proof (cases "x' < x1")
      case True
      have "(y1 - y0) / (x1 - x0) * (x - x0) \<le> (y1 - y0) / (x1 - x0) * (x' - x0)"
        using slope 1 by (intro mult_left_mono) auto
      moreover have "0 \<le> (y1 - y0) / (x1 - x0) * (x' - x0)"
        using slope 1 by (intro mult_nonneg_nonneg) auto
      ultimately show ?thesis using True xlt 1 by auto
    next
      case False
      have "y1 \<le> interp_seg x' (x1 # xp) (y1 # fp)"
        using interp_seg_lower[of "x1 # xp" "y1 # fp" x'] 1 False by simp
      moreover have "interp_seg x (x0 # x1 # xp) (y0 # y1 # fp) \<le> y1"
        using seg_upper[of x0 x1 y0 y1 x] 1 xlt by auto
      ultimately show ?thesis using False by simp
    qed
  next
    case False
    then show ?thesis using 1 by simp
  qed
qed simp_all

lemma interp_seg_hd:
  "sorted_wrt (<) xp \<Longrightarrow> length fp = length xp \<Longrightarrow> xp \<noteq> [] \<Longrightarrow> interp_seg (hd xp) xp fp = hd fp"
  by (cases xp; cases fp; cases "tl xp"; cases "tl fp") auto

lemma interp_seg_last:
  "sorted_wrt (<) xp \<Longrightarrow> length fp = length xp \<Longrightarrow> xp \<noteq> [] \<Longrightarrow> last xp \<le> x
     \<Longrightarrow> interp_seg x xp fp = last fp"
proof (induction x xp fp rule: interp_seg.induct)
  case (1 x x0 x1 xp y0 y1 fp)
  have "x1 \<le> last (x1 # xp)" using 1(2) by (cases xp) (auto simp: less_imp_le)
  then have "x1 \<le> x" using 1 by simp
  then show ?case using 1 by simp
qed simp_all



lemma interp_fun_mono:
  assumes "sorted_wrt (<) xp" "sorted fp" "length fp = length xp" "xp \<noteq> []" "x \<le> x'"
  shows "interp_fun xp fp x \<le> interp_fun xp fp x'"
proof (cases "x < hd xp")
  case True
  show ?thesis
  proof (cases "x' < hd xp")
    case True
    with \<open>x < hd xp\<close> show ?thesis by (simp add: interp_fun_def)
  next
    case False
    then have "hd fp \<le> interp_seg x' xp fp" using assms by (intro interp_seg_lower) auto
    with True False show ?thesis by (simp add: interp_fun_def)
  qed
next
  case False
  then have "interp_seg x xp fp \<le> interp_seg x' xp fp"
    using assms by (intro interp_seg_mono) auto
  with False assms show ?thesis by (simp add: interp_fun_def)
qed

lemma loglinear_interp_eq:
  assumes "t \<noteq> []" "0 \<le> n"
  shows "loglinear_interp t n =
    Inr (rev (map (\<lambda>v. exp (interp_fun (grid (length t)) (map ln (rev t)) v)) (grid (nat n))))"
proof -
  have "grid (length t) \<noteq> []" using assms length_grid[of "length t"] by (metis length_0_conv)
  then show ?thesis
    using assms
    by (simp add: loglinear_interp_def np_linspace01_def np_interp_def length_grid comp_def Let_def)
qed

lemma ln_rev_sorted:
  assumes "sorted_wrt (>) t" "\<forall>x\<in>set t. (0::real) < x"
  shows "sorted (map ln (rev t))"
proof -
  have "sorted_wrt (\<lambda>x y. ln y \<le> ln x) t"
    using assms by (induction t) auto
  then show ?thesis
    by (simp add: rev_map[symmetric] sorted_wrt_rev sorted_wrt_map)
qed

lemma loglinear_interp_many:
  assumes "t \<noteq> []" "sorted_wrt (>) t" "\<forall>x\<in>set t. 0 < x" "2 \<le> n"
  shows "\<exists>out. loglinear_interp t n = Inr out \<and> length out = nat n \<and> sorted_wrt (\<ge>) out
           \<and> hd out = hd t \<and> last out = last t"
proof -
  let ?xp = "grid (length t)" and ?fp = "map ln (rev t)" and ?g = "grid (nat n)"
  let ?f = "\<lambda>v. exp (interp_fun ?xp ?fp v)"
  let ?out = "rev (map ?f ?g)"
  have xp: "sorted_wrt (<) ?xp" "length ?fp = length ?xp" "?xp \<noteq> []"
    using assms(1) length_grid[of "length t"] by (auto simp: grid_strict)
  have fp: "sorted ?fp" using assms(2,3) by (rule ln_rev_sorted)
  have g: "?g \<noteq> []" "hd ?g = 0" "last ?g = 1" "sorted_wrt (<) ?g"
    using assms(4) length_grid[of "nat n"] by (auto simp: hd_grid last_grid grid_strict)
  have eq: "loglinear_interp t n = Inr ?out"
    using assms by (intro loglinear_interp_eq) auto
  have len: "length ?out = nat n" by (simp add: length_grid)
  have mono: "\<And>x y. x < y \<Longrightarrow> ?f x \<le> ?f y"
    using interp_fun_mono[OF xp(1) fp xp(2) xp(3)] by simp
  have "sorted_wrt (\<lambda>x y. ?f x \<le> ?f y) ?g"
    using g(4) by (rule sorted_wrt_mono_rel[rotated]) (rule mono)
  then have srt: "sorted_wrt (\<ge>) ?out"
    by (simp add: sorted_wrt_rev sorted_wrt_map)
  have hdxp: "hd ?xp = 0" using assms(1) by (simp add: hd_grid)
  have f0: "interp_fun ?xp ?fp 0 = hd ?fp"
    using interp_seg_hd[OF xp(1) xp(2) xp(3)] hdxp by (simp add: interp_fun_def)
  have lastxp: "last ?xp \<le> 1"
  proof (cases "length t = 1")
    case True then show ?thesis by (simp add: grid_def)
  next
    case False
    moreover have "length t \<noteq> 0" using assms(1) by simp
    ultimately have "2 \<le> length t" by linarith
    then show ?thesis by (simp add: last_grid)
  qed
  have f1: "interp_fun ?xp ?fp 1 = last ?fp"
    using interp_seg_last[OF xp(1) xp(2) xp(3) lastxp] hdxp by (simp add: interp_fun_def)
  have pos: "0 < hd t" "0 < last t" using assms(1,3) by auto
  have "hd ?out = ?f (last ?g)" using g(1) by (simp add: hd_rev last_map)
  also have "\<dots> = hd t" using f1 g(3) assms(1) pos by (simp add: last_map last_rev)
  finally have h: "hd ?out = hd t" .
  have "last ?out = ?f (hd ?g)" using g(1) by (simp add: last_rev hd_map)
  also have "\<dots> = last t" using f0 g(2) assms(1) pos by (simp add: hd_map hd_rev)
  finally have l: "last ?out = last t" .
  show ?thesis using eq len srt h l by blast
qed

lemma loglinear_single:
  assumes "t \<noteq> []" "sorted_wrt (>) t" "\<forall>x\<in>set t. 0 < x"
  shows "loglinear_interp t 1 = Inr [last t]"
proof -
  let ?xp = "grid (length t)" and ?fp = "map ln (rev t)"
  have xp: "sorted_wrt (<) ?xp" "length ?fp = length ?xp" "?xp \<noteq> []"
    using assms(1) length_grid[of "length t"] by (auto simp: grid_strict)
  have hdxp: "hd ?xp = 0" using assms(1) by (simp add: hd_grid)
  have f0: "interp_fun ?xp ?fp 0 = hd ?fp"
    using interp_seg_hd[OF xp(1) xp(2) xp(3)] hdxp by (simp add: interp_fun_def)
  have "0 < last t" using assms by auto
  then show ?thesis
    using loglinear_interp_eq[OF assms(1), of 1] f0 assms(1)
    by (simp add: grid_def hd_map hd_rev)
qed


text \<open>
  Claim C2, as it holds of the code. For a non-empty, strictly decreasing sequence of
  positive numbers and a count of at least 1, \<open>loglinear_interp\<close> returns a
  sequence of that length which never increases and whose last element is the
  last element of the input. Its first element is the first element of the
  input when the count is at least 2; for the count 1 the only element is the
  input's last one, because the new grid is then the single point 0.
\<close>

theorem loglinear_interp_shape:
  assumes "t \<noteq> []" "sorted_wrt (\<lambda>x y. y < x) t" "\<forall>x\<in>set t. 0 < x" "1 \<le> n"
  shows "\<exists>out. loglinear_interp t n = Inr out \<and> length out = nat n
           \<and> sorted_wrt (\<lambda>x y. y \<le> x) out
           \<and> hd out = (if n = 1 then last t else hd t) \<and> last out = last t"
proof (cases "n = 1")
  case True
  then show ?thesis using loglinear_single[OF assms(1,2,3)] by simp
next
  case False
  then have "2 \<le> n" using assms(4) by simp
  then show ?thesis using loglinear_interp_many[OF assms(1,2,3)] False by simp
qed

theorem loglinear_interp_shape_witness:
  "\<exists>out. loglinear_interp [4, 1] 3 = Inr out \<and> length out = 3
           \<and> sorted_wrt (\<lambda>x y. y \<le> x) out \<and> hd out = 4 \<and> last out = 1"
  using loglinear_interp_shape[of "[4, 1]" 3] by simp

text \<open>
  For a single requested step the align-your-steps table yields \<open>[0.002]\<close>: the
  first element of the result is the last element of the input, not its first.
\<close>

theorem loglinear_interp_single_step_counterexample:
  "loglinear_interp ays_sigmas 1 = Inr [0.002] \<and> hd ays_sigmas = 700 \<and> last ays_sigmas = 0.002"
  by (simp add: ays_sigmas_def loglinear_interp_def np_linspace01_def np_interp_def grid_def
        interp_fun_def upt_conv_Cons Let_def)

lemma grid_Nil: "grid n = [] \<longleftrightarrow> n = 0"
  using length_grid[of n] by (metis length_0_conv)

lemma resolve_sigmas_ok:
  assumes "0 \<le> steps" "tbl \<noteq> Some []"
  shows "\<exists>sg. resolve_sigmas tbl steps = Inr sg"
proof (cases tbl)
  case None
  then show ?thesis by (simp add: resolve_sigmas_def)
next
  case (Some t)
  then have t: "t \<noteq> []" using assms by simp
  have "length (grid (nat (steps + 1))) = nat (steps + 1)" by (simp add: length_grid)
  then show ?thesis
    using assms(1) Some loglinear_interp_eq[OF t, of "steps + 1"]
    by (auto simp: resolve_sigmas_def set_last_def py_slice_from_def length_grid grid_Nil)
qed

lemma resolve_sigmas_interp_zero:
  assumes "0 \<le> steps" "t \<noteq> []" "steps + 1 \<noteq> int (length t)"
  shows "\<exists>sg. resolve_sigmas (Some t) steps = Inr (Some sg) \<and> length sg = nat (steps + 1)
           \<and> last sg = 0"
  using assms loglinear_interp_eq[OF assms(2), of "steps + 1"]
  by (auto simp: resolve_sigmas_def set_last_def py_slice_from_def length_grid last_list_update grid_Nil)

lemma resolve_sigmas_same_length:
  "steps + 1 = int (length t) \<Longrightarrow> resolve_sigmas (Some t) steps = Inr (Some t)"
  by (simp add: resolve_sigmas_def)

subsection \<open>The sampler\<close>

lemmas prog_defs = bindp_def getp_def retp_def raisep_def liftp_def modifyp_def assertp_def

lemma sampler_process_unfold:
  "MimicMotionSampler_process run ref_image pose_images cfg_min cfg_max steps seed noise_aug
       fps_in keep_model_loaded context_size context_overlap optional_scheduler s =
   (let s1 = s\<lparr>pipeline := (pipeline s)\<lparr>scheduler :=
                 (case optional_scheduler of Some opt \<Rightarrow> noise_scheduler opt
                                           | None \<Rightarrow> scheduler (pipeline s))\<rparr>\<rparr>
    in case (case optional_scheduler of Some opt \<Rightarrow> resolve_sigmas (sigmas opt) steps
                                      | None \<Rightarrow> Inr None) of
         Inl e \<Rightarrow> (Inl e, s1)
       | Inr sg \<Rightarrow>
           (case shape4 pose_images of (B, H, W, C) \<Rightarrow>
              if int B < context_size then (Inl AssertionError, s1)
              else
                let c = \<lparr>call_scheduler = scheduler (pipeline s1),
                         call_image = permute_0312 ref_image,
                         image_pose = scale4 2 (- 1) (permute_0312 pose_images), num_frames = B,
                         tile_size = context_size, tile_overlap = context_overlap,
                         height = H, width = W, fps = fps_in,
                         noise_aug_strength = noise_aug, num_inference_steps = steps,
                         generator_seed = seed, min_guidance_scale = cfg_min,
                         max_guidance_scale = cfg_max, decode_chunk_size = 4,
                         call_sigmas = sg\<rparr>;
                    s2 = s1\<lparr>pipeline_calls := pipeline_calls s1 @ [c]\<rparr>
                in case run c of
                     Inl e \<Rightarrow> (Inl e, s2)
                   | Inr frames \<Rightarrow>
                       (Inr frames,
                        if keep_model_loaded then s2
                        else s2\<lparr>pipeline := (pipeline s2)\<lparr>unet_device := Offload_Device,
                                                           vae_device := Offload_Device\<rparr>\<rparr>)))"
  by (simp add: MimicMotionSampler_process_def prog_defs set_scheduler_def call_pipeline_def
        offload_models_def Let_def split: option.splits sum.splits prod.splits)

text \<open>
  Claim C5. For a step count that is not negative and an optional scheduler whose
  sigma table, if any, is not empty: when \<open>context_size\<close> exceeds the number of
  pose frames the sampler raises \<^verbatim>\<open>AssertionError\<close> and the pipeline has
  not been invoked; when the number of pose frames is at least \<open>context_size\<close>
  the check passes, the pipeline is invoked exactly once, and the outcome of the
  node is the outcome of that invocation.
\<close>

theorem sampler_context_size_check:
  assumes "0 \<le> steps"
    and "\<forall>opt. optional_scheduler = Some opt \<longrightarrow> sigmas opt \<noteq> Some []"
  shows "(int (fst (shape4 pose_images)) < context_size \<longrightarrow>
            fst (MimicMotionSampler_process run ref_image pose_images cfg_min cfg_max steps seed
                   noise_aug fps_in keep_model_loaded context_size context_overlap
                   optional_scheduler s) = Inl AssertionError
          \<and> pipeline_calls (snd (MimicMotionSampler_process run ref_image pose_images cfg_min
                   cfg_max steps seed noise_aug fps_in keep_model_loaded context_size
                   context_overlap optional_scheduler s)) = pipeline_calls s)
       \<and> (context_size \<le> int (fst (shape4 pose_images)) \<longrightarrow>
            (\<exists>c. pipeline_calls (snd (MimicMotionSampler_process run ref_image pose_images
                   cfg_min cfg_max steps seed noise_aug fps_in keep_model_loaded context_size
                   context_overlap optional_scheduler s)) = pipeline_calls s @ [c]
               \<and> fst (MimicMotionSampler_process run ref_image pose_images cfg_min cfg_max
                   steps seed noise_aug fps_in keep_model_loaded context_size context_overlap
                   optional_scheduler s) = run c
               \<and> num_frames c = fst (shape4 pose_images) \<and> tile_size c = context_size))"
proof -
  obtain sg where sg: "(case optional_scheduler of Some opt \<Rightarrow> resolve_sigmas (sigmas opt) steps
                                      | None \<Rightarrow> Inr None) = Inr sg"
  proof (cases optional_scheduler)
    case None
    then show ?thesis using that by simp
  next
    case (Some opt)
    then have "sigmas opt \<noteq> Some []" using assms(2) by simp
    then obtain r where "resolve_sigmas (sigmas opt) steps = Inr r"
      using resolve_sigmas_ok[OF assms(1)] by blast
    then show ?thesis using that Some by simp
  qed
  show ?thesis
    unfolding sampler_process_unfold
    by (cases "shape4 pose_images") (auto simp: sg Let_def split: sum.splits)
qed

lemma sampler_small_batch_never_calls:
  "int (fst (shape4 pose_images)) < context_size \<Longrightarrow>
     isl (fst (MimicMotionSampler_process run ref_image pose_images cfg_min cfg_max steps seed
                   noise_aug fps_in keep_model_loaded context_size context_overlap
                   optional_scheduler s))
     \<and> pipeline_calls (snd (MimicMotionSampler_process run ref_image pose_images cfg_min
                   cfg_max steps seed noise_aug fps_in keep_model_loaded context_size
                   context_overlap optional_scheduler s)) = pipeline_calls s"
  unfolding sampler_process_unfold
  by (cases "shape4 pose_images") (auto simp: Let_def split: sum.splits)

theorem sampler_context_size_check_witness:
  "fst (MimicMotionSampler_process (\<lambda>c. Inr (num_frames c))
          \<lparr>shape4 = (1, 8, 8, 3), data4 = (\<lambda>i h w c. 0)\<rparr>
          \<lparr>shape4 = (16, 8, 8, 3), data4 = (\<lambda>i h w c. 0)\<rparr> 2 2 25 0 0 15 True 17 6
          (Some \<lparr>noise_scheduler = AnimateLCM_SVD 0.002 700, sigmas = Some ays_sigmas\<rparr>)
          \<lparr>pipeline = \<lparr>scheduler = EulerDiscreteScheduler 0.002 700,
                        unet_device = Torch_Device, vae_device = Torch_Device\<rparr>,
           pipeline_calls = []\<rparr>) = Inl AssertionError
   \<and> fst (MimicMotionSampler_process (\<lambda>c. Inr (num_frames c))
          \<lparr>shape4 = (1, 8, 8, 3), data4 = (\<lambda>i h w c. 0)\<rparr>
          \<lparr>shape4 = (16, 8, 8, 3), data4 = (\<lambda>i h w c. 0)\<rparr> 2 2 25 0 0 15 True 16 6
          (Some \<lparr>noise_scheduler = AnimateLCM_SVD 0.002 700, sigmas = Some ays_sigmas\<rparr>)
          \<lparr>pipeline = \<lparr>scheduler = EulerDiscreteScheduler 0.002 700,
                        unet_device = Torch_Device, vae_device = Torch_Device\<rparr>,
           pipeline_calls = []\<rparr>) = Inr 16"
proof -
  let ?run = "\<lambda>c :: sched pipe_call. (Inr (num_frames c) :: exn + nat)"
  let ?ref = "\<lparr>shape4 = (1, 8, 8, 3), data4 = (\<lambda>i h w c. 0)\<rparr>"
  let ?pose = "\<lparr>shape4 = (16, 8, 8, 3), data4 = (\<lambda>i h w c. 0)\<rparr>"
  let ?opt = "Some \<lparr>noise_scheduler = AnimateLCM_SVD 0.002 700, sigmas = Some ays_sigmas\<rparr>"
  let ?s = "\<lparr>pipeline = \<lparr>scheduler = EulerDiscreteScheduler 0.002 700,
                        unet_device = Torch_Device, vae_device = Torch_Device\<rparr>,
           pipeline_calls = []\<rparr>"
  have h1: "(0::int) \<le> 25" by simp
  have h2: "\<forall>opt. ?opt = Some opt \<longrightarrow> sigmas opt \<noteq> Some []"
    by (simp add: ays_sigmas_def)
  have a: "fst (MimicMotionSampler_process ?run ?ref ?pose 2 2 25 0 0 15 True 17 6 ?opt ?s)
             = Inl AssertionError"
    using sampler_context_size_check[OF h1 h2, of ?pose 17 ?run ?ref 2 2 0 0 15 True 6 ?s]
    by simp
  have b: "fst (MimicMotionSampler_process ?run ?ref ?pose 2 2 25 0 0 15 True 16 6 ?opt ?s)
             = Inr 16"
    using sampler_context_size_check[OF h1 h2, of ?pose 16 ?run ?ref 2 2 0 0 15 True 6 ?s]
    by auto
  show ?thesis using a b by simp
qed


text \<open>
  Claim C1 at 10 steps. The table of the align-your-steps mode has 11 entries, so
  for 10 steps the guard \<^verbatim>\<open>(steps + 1) != len(sigmas)\<close> is false, neither
  the interpolation nor the assignment \<^verbatim>\<open>sigmas[-1] = 0\<close> runs, and the
  pipeline receives the table itself, whose last entry is 0.002.
\<close>

theorem sampler_ays_ten_steps_final_sigma:
  "map call_sigmas (pipeline_calls (snd (MimicMotionSampler_process run ref_image
        \<lparr>shape4 = (16, 64, 64, 3), data4 = d\<rparr> cfg_min cfg_max 10 seed noise_aug fps_in
        keep_model_loaded 16 6
        (Some \<lparr>noise_scheduler = sch, sigmas = Some ays_sigmas\<rparr>) s)))
     = map call_sigmas (pipeline_calls s) @ [Some ays_sigmas]
   \<and> last ays_sigmas = 0.002"
proof -
  have r: "resolve_sigmas (Some ays_sigmas) 10 = Inr (Some ays_sigmas)"
    by (rule resolve_sigmas_same_length) (simp add: ays_sigmas_def)
  have l: "last ays_sigmas = 0.002" by (simp add: ays_sigmas_def)
  have c: "map call_sigmas (pipeline_calls (snd (MimicMotionSampler_process run ref_image
        \<lparr>shape4 = (16, 64, 64, 3), data4 = d\<rparr> cfg_min cfg_max 10 seed noise_aug fps_in
        keep_model_loaded 16 6
        (Some \<lparr>noise_scheduler = sch, sigmas = Some ays_sigmas\<rparr>) s)))
     = map call_sigmas (pipeline_calls s) @ [Some ays_sigmas]"
    unfolding sampler_process_unfold
    by (auto simp: r Let_def split: sum.splits)
  show ?thesis using c l by simp
qed

lemma sampler_interpolated_final_sigma:
  assumes "0 \<le> steps" "t \<noteq> []" "steps + 1 \<noteq> int (length t)"
    and "context_size \<le> int (fst (shape4 pose_images))"
  shows "\<exists>sg. map call_sigmas (pipeline_calls (snd (MimicMotionSampler_process run ref_image
             pose_images cfg_min cfg_max steps seed noise_aug fps_in keep_model_loaded
             context_size context_overlap
             (Some \<lparr>noise_scheduler = sch, sigmas = Some t\<rparr>) s)))
           = map call_sigmas (pipeline_calls s) @ [Some sg]
         \<and> length sg = nat (steps + 1) \<and> last sg = 0"
proof -
  obtain sg where sg: "resolve_sigmas (Some t) steps = Inr (Some sg)"
      "length sg = nat (steps + 1)" "last sg = 0"
    using resolve_sigmas_interp_zero[OF assms(1,2,3)] by blast
  show ?thesis
    unfolding sampler_process_unfold using assms(4) sg(2,3)
    by (cases "shape4 pose_images") (auto simp: sg(1) Let_def split: sum.splits)
qed

text \<open>
  Claim C9. After a call with an optional scheduler the pipeline object holds the
  scheduler of the override, whatever the outcome of the call. A later call on
  the same pipeline object without an override leaves it there, and its
  invocation of the pipeline, if the precondition lets it happen, runs with the
  override of the earlier call.
\<close>

theorem sampler_scheduler_override_persists:
  "scheduler (pipeline (snd (MimicMotionSampler_process run ref_image pose_images cfg_min
        cfg_max steps seed noise_aug fps_in keep_model_loaded context_size context_overlap
        (Some opt) s))) = noise_scheduler opt
   \<and> scheduler (pipeline (snd (MimicMotionSampler_process run2 ref_image2 pose_images2
        cfg_min2 cfg_max2 steps2 seed2 noise_aug2 fps_in2 keep_model_loaded2 context_size2
        context_overlap2 None
        (snd (MimicMotionSampler_process run ref_image pose_images cfg_min
          cfg_max steps seed noise_aug fps_in keep_model_loaded context_size context_overlap
          (Some opt) s))))) = noise_scheduler opt
   \<and> map call_scheduler (pipeline_calls (snd (MimicMotionSampler_process run2 ref_image2
        pose_images2 cfg_min2 cfg_max2 steps2 seed2 noise_aug2 fps_in2 keep_model_loaded2
        context_size2 context_overlap2 None
        (snd (MimicMotionSampler_process run ref_image pose_images cfg_min
          cfg_max steps seed noise_aug fps_in keep_model_loaded context_size context_overlap
          (Some opt) s)))))
     = map call_scheduler (pipeline_calls (snd (MimicMotionSampler_process run ref_image
          pose_images cfg_min cfg_max steps seed noise_aug fps_in keep_model_loaded
          context_size context_overlap (Some opt) s)))
       @ (if int (fst (shape4 pose_images2)) < context_size2 then [] else [noise_scheduler opt])"
proof -
  let ?s1 = "snd (MimicMotionSampler_process run ref_image pose_images cfg_min
          cfg_max steps seed noise_aug fps_in keep_model_loaded context_size context_overlap
          (Some opt) s)"
  have a: "scheduler (pipeline ?s1) = noise_scheduler opt"
    unfolding sampler_process_unfold
    by (cases "shape4 pose_images") (auto simp: Let_def split: sum.splits)
  have b: "scheduler (pipeline (snd (MimicMotionSampler_process run2 ref_image2 pose_images2
        cfg_min2 cfg_max2 steps2 seed2 noise_aug2 fps_in2 keep_model_loaded2 context_size2
        context_overlap2 None s'))) = scheduler (pipeline s')" for s'
    unfolding sampler_process_unfold
    by (cases "shape4 pose_images2") (auto simp: Let_def split: sum.splits)
  have c: "map call_scheduler (pipeline_calls (snd (MimicMotionSampler_process run2 ref_image2
        pose_images2 cfg_min2 cfg_max2 steps2 seed2 noise_aug2 fps_in2 keep_model_loaded2
        context_size2 context_overlap2 None s')))
     = map call_scheduler (pipeline_calls s')
       @ (if int (fst (shape4 pose_images2)) < context_size2 then [] else [scheduler (pipeline s')])"
    for s'
    unfolding sampler_process_unfold
    by (cases "shape4 pose_images2") (auto simp: Let_def split: sum.splits)
  show ?thesis using a b[of ?s1] c[of ?s1] by simp
qed

theorem sampler_scheduler_override_persists_witness:
  "scheduler (pipeline (snd (MimicMotionSampler_process (\<lambda>c. Inr (num_frames c))
        \<lparr>shape4 = (1, 8, 8, 3), data4 = (\<lambda>i h w c. 0)\<rparr>
        \<lparr>shape4 = (16, 8, 8, 3), data4 = (\<lambda>i h w c. 0)\<rparr> 2 2 25 0 0 15 True 16 6 None
        (snd (MimicMotionSampler_process (\<lambda>c. Inr (num_frames c))
          \<lparr>shape4 = (1, 8, 8, 3), data4 = (\<lambda>i h w c. 0)\<rparr>
          \<lparr>shape4 = (16, 8, 8, 3), data4 = (\<lambda>i h w c. 0)\<rparr> 2 2 25 0 0 15 True 16 6
          (Some \<lparr>noise_scheduler = AnimateLCM_SVD 0.002 700, sigmas = None\<rparr>)
          \<lparr>pipeline = \<lparr>scheduler = EulerDiscreteScheduler 0.002 700,
                        unet_device = Torch_Device, vae_device = Torch_Device\<rparr>,
           pipeline_calls = []\<rparr>))))) = AnimateLCM_SVD 0.002 700"
  using sampler_scheduler_override_persists[of "\<lambda>c. Inr (num_frames c)"
      "\<lparr>shape4 = (1, 8, 8, 3), data4 = (\<lambda>i h w c. 0)\<rparr>"
      "\<lparr>shape4 = (16, 8, 8, 3), data4 = (\<lambda>i h w c. 0)\<rparr>" 2 2 25 0 0 15 True 16 6
      "\<lparr>noise_scheduler = AnimateLCM_SVD 0.002 700, sigmas = None\<rparr>"
      "\<lparr>pipeline = \<lparr>scheduler = EulerDiscreteScheduler 0.002 700,
                        unet_device = Torch_Device, vae_device = Torch_Device\<rparr>,
           pipeline_calls = []\<rparr>"
      "\<lambda>c. Inr (num_frames c)"
      "\<lparr>shape4 = (1, 8, 8, 3), data4 = (\<lambda>i h w c. 0)\<rparr>"
      "\<lparr>shape4 = (16, 8, 8, 3), data4 = (\<lambda>i h w c. 0)\<rparr>" 2 2 25 0 0 15 True 16 6]
  by simp

subsection \<open>The decoder\<close>

lemma decode_process_unfold:
  "MimicMotionDecode_process decode_latents tensor2vid to_hwc samples chunk_size s =
     (let n = length samples;
          finish = (\<lambda>frames st. case tensor2vid frames of
                       Inl e \<Rightarrow> (Inl e, st)
                     | Inr vid \<Rightarrow> (Inr (map to_hwc (drop 1 vid)), st))
      in case decode_latents samples n chunk_size (decoder_world s) of
           (Inr frames, w1) \<Rightarrow>
             finish frames \<lparr>decoder_world = w1, decode_calls = decode_calls s @ [chunk_size]\<rparr>
         | (Inl e, w1) \<Rightarrow>
             (case decode_latents samples n 1 w1 of
                (Inr frames, w2) \<Rightarrow>
                  finish frames
                    \<lparr>decoder_world = w2, decode_calls = decode_calls s @ [chunk_size, 1]\<rparr>
              | (Inl e2, w2) \<Rightarrow>
                  (Inl e2,
                   \<lparr>decoder_world = w2, decode_calls = decode_calls s @ [chunk_size, 1]\<rparr>)))"
  by (simp add: MimicMotionDecode_process_def prog_defs catchp_def call_decode_def Let_def
        split: sum.splits prod.splits)

text \<open>
  Claim C4. If the decode call with the requested chunk size raises, the decoder
  is called once more, with chunk size 1, and no third time; an exception of
  that second call is the outcome of the node. If the first call returns, there
  is no second call. In every run that returns, the result is the video with its
  first frame removed, so it is one frame shorter than the video (which holds at
  least the conditioning frame).
\<close>

theorem decode_fallback:
  "(\<forall>e w1. decode_latents samples (length samples) chunk_size (decoder_world s) = (Inl e, w1) \<longrightarrow>
       decode_calls (snd (MimicMotionDecode_process decode_latents tensor2vid to_hwc samples
          chunk_size s)) = decode_calls s @ [chunk_size, 1]
     \<and> (\<forall>e2 w2. decode_latents samples (length samples) 1 w1 = (Inl e2, w2) \<longrightarrow>
          fst (MimicMotionDecode_process decode_latents tensor2vid to_hwc samples chunk_size s)
            = Inl e2)
     \<and> (\<forall>frames w2. decode_latents samples (length samples) 1 w1 = (Inr frames, w2) \<longrightarrow>
          fst (MimicMotionDecode_process decode_latents tensor2vid to_hwc samples chunk_size s)
            = (case tensor2vid frames of Inl e3 \<Rightarrow> Inl e3
               | Inr vid \<Rightarrow> Inr (map to_hwc (drop 1 vid)))))
   \<and> (\<forall>frames w1. decode_latents samples (length samples) chunk_size (decoder_world s)
          = (Inr frames, w1) \<longrightarrow>
       decode_calls (snd (MimicMotionDecode_process decode_latents tensor2vid to_hwc samples
          chunk_size s)) = decode_calls s @ [chunk_size]
     \<and> fst (MimicMotionDecode_process decode_latents tensor2vid to_hwc samples chunk_size s)
            = (case tensor2vid frames of Inl e3 \<Rightarrow> Inl e3
               | Inr vid \<Rightarrow> Inr (map to_hwc (drop 1 vid))))
   \<and> (\<forall>out. fst (MimicMotionDecode_process decode_latents tensor2vid to_hwc samples
          chunk_size s) = Inr out \<longrightarrow>
       (\<exists>frames vid. tensor2vid frames = Inr vid \<and> out = map to_hwc (tl vid)
          \<and> (vid \<noteq> [] \<longrightarrow> length out + 1 = length vid)))"
proof (intro conjI allI impI)
  fix out
  assume "fst (MimicMotionDecode_process decode_latents tensor2vid to_hwc samples
          chunk_size s) = Inr out"
  then obtain frames vid where "tensor2vid frames = Inr vid" "out = map to_hwc (drop 1 vid)"
    unfolding decode_process_unfold
    by (auto simp: Let_def split: sum.splits prod.splits)
  note fv = this
  have "out = map to_hwc (tl vid)" using fv(2) by (simp add: drop_Suc)
  moreover have "vid \<noteq> [] \<longrightarrow> length out + 1 = length vid"
    using fv(2) by (cases vid) auto
  ultimately show "\<exists>frames vid. tensor2vid frames = Inr vid \<and> out = map to_hwc (tl vid)
          \<and> (vid \<noteq> [] \<longrightarrow> length out + 1 = length vid)"
    using fv(1) by blast
qed (auto simp: decode_process_unfold Let_def split: sum.splits prod.splits)

theorem decode_fallback_witness:
  "decode_calls (snd (MimicMotionDecode_process
       (\<lambda>l n c w. if 1 < c then (Inl (External ''out of memory''), Suc w) else (Inr l, Suc w))
       Inr id [0, 1, 2 :: nat] 4 \<lparr>decoder_world = (0::nat), decode_calls = []\<rparr>)) = [4, 1]
   \<and> fst (MimicMotionDecode_process
       (\<lambda>l n c w. if 1 < c then (Inl (External ''out of memory''), Suc w) else (Inr l, Suc w))
       Inr id [0, 1, 2 :: nat] 4 \<lparr>decoder_world = (0::nat), decode_calls = []\<rparr>) = Inr [1, 2]"
  using decode_fallback[of
       "\<lambda>l n c w. if 1 < c then (Inl (External ''out of memory''), Suc w) else (Inr l, Suc w)"
       "[0, 1, 2 :: nat]" 4 "\<lparr>decoder_world = (0::nat), decode_calls = []\<rparr>" Inr id]
  by simp

subsection \<open>The pose node\<close>

lemma bindp_Inr:
  "bindp m f s = (Inr y, s') \<longleftrightarrow> (\<exists>x s1. m s = (Inr x, s1) \<and> f x s1 = (Inr y, s'))"
  by (auto simp: bindp_def split: prod.splits sum.splits)

lemma liftp_Inr: "liftp r s = (Inr x, s') \<longleftrightarrow> r = Inr x \<and> s' = s"
  by (auto simp: liftp_def)

lemma retp_Inr: "retp x s = (Inr y, s') \<longleftrightarrow> y = x \<and> s' = s"
  by (auto simp: retp_def)

lemma assertp_Inr: "assertp c s = (Inr u, s') \<longleftrightarrow> c \<and> s' = s"
  by (auto simp: assertp_def retp_def raisep_def)

lemma modifyp_Inr: "modifyp g s = (Inr u, s') \<longleftrightarrow> s' = g s"
  by (auto simp: modifyp_def)

lemma detect_Inr:
  "detect dwprocessor img l = (Inr p, l') \<longleftrightarrow> dwprocessor img = Inr p \<and> l' = l @ [Detect img]"
  by (auto simp: detect_def bindp_Inr liftp_Inr modifyp_Inr)

lemma draw_Inr:
  "draw draw_pose p h w ib ih ifc l = (Inr pic, l')
     \<longleftrightarrow> draw_pose p h w ib ih ifc = Inr pic \<and> l' = l @ [Draw p]"
  by (auto simp: draw_def bindp_Inr liftp_Inr modifyp_Inr)

lemma mapMp_Inr:
  assumes "\<And>x l y l'. f x l = (Inr y, l') \<longleftrightarrow> g x = Inr y \<and> l' = l @ [ev x]"
  shows "mapMp f xs l = (Inr ys, l') \<longleftrightarrow> map g xs = map Inr ys \<and> l' = l @ map ev xs"
proof (induction xs arbitrary: l ys l')
  case Nil
  then show ?case by (auto simp: retp_Inr)
next
  case (Cons x xs)
  show ?case
    by (cases ys) (auto simp: bindp_Inr retp_Inr assms Cons.IH)
qed

lemma mapMp_detect:
  "mapMp (\<lambda>img. detect dwprocessor (A3 img)) xs l = (Inr ys, l')
     \<longleftrightarrow> map (\<lambda>img. dwprocessor (A3 img)) xs = map Inr ys
        \<and> l' = l @ map (\<lambda>img. Detect (A3 img)) xs"
  by (rule mapMp_Inr) (rule detect_Inr)

lemma mapMp_draw:
  "mapMp (\<lambda>p. draw draw_pose (k p) h w ib ih ifc) xs l = (Inr ys, l')
     \<longleftrightarrow> map (\<lambda>p. draw_pose (k p) h w ib ih ifc) xs = map Inr ys
        \<and> l' = l @ map (\<lambda>p. Draw (k p)) xs"
  by (rule mapMp_Inr) (rule draw_Inr)

lemma map_Inr_nth:
  "map g xs = map Inr ys \<Longrightarrow> length ys = length xs \<and> (\<forall>i<length xs. g (xs ! i) = Inr (ys ! i))"
  by (metis length_map nth_map)

lemma torch_stack_Inr:
  "torch_stack ts = Inr r \<longleftrightarrow>
     r = ts \<and> ts \<noteq> [] \<and> list_all (\<lambda>u. shape3 u = shape3 (hd ts)) (tl ts)"
  by (auto simp: torch_stack_def split: list.splits)

lemma torch_cat_front_Inr:
  "torch_cat_front t batch = Inr r \<longleftrightarrow>
     r = t # batch \<and> list_all (\<lambda>u. shape3 u = shape3 t) batch"
  by (auto simp: torch_cat_front_def)

lemma getposes_success:
  assumes "MimicMotionGetPoses_process path_exists dwprocessor draw_pose lstsq
       ref_image pose_images include_body include_hand include_face l = (Inr (out1, out2), l')"
  shows "\<exists>ref_pose ids ref_body h w detected dbodies a b pics refpic.
      shape_1_3 ref_image = shape_1_3 pose_images
    \<and> dwprocessor (scale_nd 255 (squeeze0 ref_image)) = Inr ref_pose
    \<and> ref_keypoint_ids (score (bodies ref_pose)) = Inr ids
    \<and> take_rows (candidate (bodies ref_pose)) ids = Inr ref_body
    \<and> unpack_hw (scale_nd 255 (squeeze0 ref_image)) = Inr (h, w)
    \<and> map (\<lambda>img. dwprocessor (A3 img)) (map (scale3 255) (frames4 pose_images))
        = map Inr detected
    \<and> detected_bodies_of ids detected = Inr dbodies
    \<and> rescale_params lstsq ref_body dbodies (map (scale3 255) (frames4 pose_images)) h w
        = Inr (a, b)
    \<and> map (\<lambda>p. draw_pose (rescale_pose a b include_body include_hand include_face p) h w
                 include_body include_hand include_face) detected = map Inr pics
    \<and> draw_pose ref_pose h w include_body include_hand include_face = Inr refpic
    \<and> out1 = map permute_frame (scale3 (1 / 255) refpic # map (scale3 (1 / 255)) pics)
    \<and> out2 = tl out1"
  using assms
  unfolding MimicMotionGetPoses_process_def Let_def
  by (clarsimp simp: bindp_Inr liftp_Inr retp_Inr assertp_Inr detect_Inr draw_Inr
      mapMp_detect mapMp_draw drop_Suc torch_stack_Inr torch_cat_front_Inr)


lemma getposes_successE:
  assumes "MimicMotionGetPoses_process path_exists dwprocessor draw_pose lstsq
       ref_image pose_images include_body include_hand include_face l = (Inr (out1, out2), l')"
  obtains ref_pose ids ref_body h w detected db a b pics refpic where
    "shape_1_3 ref_image = shape_1_3 pose_images"
    "dwprocessor (scale_nd 255 (squeeze0 ref_image)) = Inr ref_pose"
    "ref_keypoint_ids (score (bodies ref_pose)) = Inr ids"
    "take_rows (candidate (bodies ref_pose)) ids = Inr ref_body"
    "unpack_hw (scale_nd 255 (squeeze0 ref_image)) = Inr (h, w)"
    "map (\<lambda>img. dwprocessor (A3 img)) (map (scale3 255) (frames4 pose_images))
        = map Inr detected"
    "detected_bodies_of ids detected = Inr db"
    "rescale_params lstsq ref_body db (map (scale3 255) (frames4 pose_images)) h w
        = Inr (a, b)"
    "map (\<lambda>p. draw_pose (rescale_pose a b include_body include_hand include_face p) h w
                 include_body include_hand include_face) detected = map Inr pics"
    "draw_pose ref_pose h w include_body include_hand include_face = Inr refpic"
    "out1 = map permute_frame (scale3 (1 / 255) refpic # map (scale3 (1 / 255)) pics)"
    "out2 = tl out1"
  using getposes_success[OF assms] by (elim exE conjE) (rule that; assumption)

lemma demo_run:
  "\<exists>out1 out2 l'. MimicMotionGetPoses_process (\<lambda>n. True) demo_detector demo_draw demo_lstsq
       demo_ref demo_poses True True True [] = (Inr (out1, out2), l')"
  apply (simp add: MimicMotionGetPoses_process_def Let_def prog_defs detect_def draw_def
      ensure_model_def shape_1_3_def demo_ref_def demo_poses_def squeeze0_def scale_nd_def
      scale3_def demo_detector_def demo_pose_def ref_keypoint_ids_def base_keypoint_id_def
      take_rows_def unpack_hw_def frames4_def upt_conv_Cons detected_bodies_of_def has_18_def
      np_stack_def rescale_params_def np_polyfit1_def fit_x_def fit_y_def np_tile_def
      demo_lstsq_def x_scale_def demo_draw_def torch_stack_def torch_cat_front_def)
  done


lemma appends_only_retp: "appends_only (retp x)"
  by (simp add: appends_only_def retp_def)

lemma appends_only_liftp: "appends_only (liftp r)"
  by (simp add: appends_only_def liftp_def)

lemma appends_only_assertp: "appends_only (assertp c)"
  by (simp add: appends_only_def assertp_def retp_def raisep_def)

lemma appends_only_log: "appends_only (modifyp (\<lambda>l. l @ [e]))"
  by (simp add: appends_only_def modifyp_def)

lemma appends_only_bindp:
  assumes "appends_only m" "\<And>x. appends_only (f x)"
  shows "appends_only (bindp m f)"
  unfolding appends_only_def
proof
  fix l
  obtain r l1 where m: "m l = (r, l1)" by (cases "m l")
  obtain t where t: "l1 = l @ t" using assms(1) m unfolding appends_only_def by (metis snd_conv)
  show "\<exists>u. snd (bindp m f l) = l @ u"
  proof (cases r)
    case (Inl e)
    then show ?thesis using m t by (simp add: bindp_def)
  next
    case (Inr x)
    obtain t' where "snd (f x l1) = l1 @ t'" using assms(2)[of x] unfolding appends_only_def by blast
    then show ?thesis using m t Inr by (simp add: bindp_def)
  qed
qed

lemma appends_only_mapMp:
  assumes "\<And>x. appends_only (f x)"
  shows "appends_only (mapMp f xs)"
  by (induction xs) (auto intro!: appends_only_bindp appends_only_retp assms)

lemma appends_only_detect: "appends_only (detect dwprocessor img)"
  unfolding detect_def by (intro appends_only_bindp appends_only_log appends_only_liftp)

lemma appends_only_draw: "appends_only (draw draw_pose p h w ib ih ifc)"
  unfolding draw_def by (intro appends_only_bindp appends_only_log appends_only_liftp)

lemma appends_only_case_prod:
  assumes "\<And>a b. appends_only (f a b)"
  shows "appends_only (case p of (a, b) \<Rightarrow> f a b)"
  by (cases p) (simp add: assms)

lemma ensure_model_eq:
  "ensure_model path_exists name l =
     (Inr (), l @ map Download (filter (\<lambda>n. \<not> path_exists n) [name]))"
  by (simp add: ensure_model_def modifyp_def retp_def)

lemma bindp_assertp_true: "c \<Longrightarrow> bindp (assertp c) f l = f () l"
  by (simp add: bindp_def assertp_def retp_def)

lemma bindp_ensure_model:
  "bindp (ensure_model path_exists name) f l =
     f () (l @ map Download (filter (\<lambda>n. \<not> path_exists n) [name]))"
  by (simp add: bindp_def ensure_model_eq)

lemma bindp_detect:
  "bindp (detect dwprocessor img) f l = bindp (liftp (dwprocessor img)) f (l @ [Detect img])"
  by (simp add: bindp_def detect_def modifyp_def liftp_def)

text \<open>
  Claim C8. When the reference image and the pose images differ in height or
  width, the pose node raises \<^verbatim>\<open>AssertionError\<close> with an empty record of
  external calls: no model was downloaded and the detector did not run. When
  they agree the check passes: after the downloads of missing models, the next
  external call is the detector on the reference image.
\<close>

theorem getposes_resolution_check:
  "(shape_1_3 ref_image \<noteq> shape_1_3 pose_images \<longrightarrow>
      MimicMotionGetPoses_process path_exists dwprocessor draw_pose lstsq
        ref_image pose_images include_body include_hand include_face l
      = (Inl AssertionError, l))
   \<and> (shape_1_3 ref_image = shape_1_3 pose_images \<longrightarrow>
      (\<exists>t. snd (MimicMotionGetPoses_process path_exists dwprocessor draw_pose lstsq
               ref_image pose_images include_body include_hand include_face l)
         = l @ map Download (filter (\<lambda>n. \<not> path_exists n)
                  [''yolox_l.onnx'', ''dw-ll_ucoco_384.onnx''])
             @ Detect (scale_nd 255 (squeeze0 ref_image)) # t))"
proof (intro conjI impI)
  assume "shape_1_3 ref_image \<noteq> shape_1_3 pose_images"
  then show "MimicMotionGetPoses_process path_exists dwprocessor draw_pose lstsq
        ref_image pose_images include_body include_hand include_face l
      = (Inl AssertionError, l)"
    by (simp add: MimicMotionGetPoses_process_def assertp_def raisep_def bindp_def)
next
  assume eq: "shape_1_3 ref_image = shape_1_3 pose_images"
  let ?l1 = "l @ map Download (filter (\<lambda>n. \<not> path_exists n)
                  [''yolox_l.onnx'', ''dw-ll_ucoco_384.onnx''])"
  let ?img = "scale_nd 255 (squeeze0 ref_image)"
  define k where "k = (\<lambda>ref_pose.
     bindp (liftp (ref_keypoint_ids (score (bodies ref_pose)))) (\<lambda>ref_keypoint_id.
     bindp (liftp (take_rows (candidate (bodies ref_pose)) ref_keypoint_id)) (\<lambda>ref_body.
     bindp (liftp (unpack_hw ?img)) (\<lambda>(h, w).
     bindp (mapMp (\<lambda>img_np. detect dwprocessor (A3 img_np))
              (map (scale3 255) (frames4 pose_images)))
       (\<lambda>detected_poses_np_list.
     bindp (liftp (detected_bodies_of ref_keypoint_id detected_poses_np_list))
       (\<lambda>detected_bodies.
     bindp (liftp (rescale_params lstsq ref_body detected_bodies
                     (map (scale3 255) (frames4 pose_images)) h w))
       (\<lambda>(a, b).
     bindp (mapMp (\<lambda>detected_pose.
              draw draw_pose (rescale_pose a b include_body include_hand include_face detected_pose)
                h w include_body include_hand include_face) detected_poses_np_list)
       (\<lambda>output_pose.
     bindp (liftp (torch_stack (map (scale3 (1 / 255)) output_pose))) (\<lambda>output_tensor.
     bindp (draw draw_pose ref_pose h w include_body include_hand include_face)
       (\<lambda>ref_pose_img.
     bindp (liftp (torch_cat_front (scale3 (1 / 255) ref_pose_img) output_tensor))
       (\<lambda>output_tensor.
     retp (map permute_frame output_tensor, drop 1 (map permute_frame output_tensor)))))))))))))"
  have k: "appends_only (k p)" for p
    unfolding k_def
    by (intro appends_only_bindp appends_only_liftp appends_only_retp appends_only_mapMp
          appends_only_detect appends_only_draw appends_only_case_prod)
  have run: "MimicMotionGetPoses_process path_exists dwprocessor draw_pose lstsq
        ref_image pose_images include_body include_hand include_face l
      = bindp (liftp (dwprocessor ?img)) k (?l1 @ [Detect ?img])"
    using eq
    by (simp add: MimicMotionGetPoses_process_def k_def Let_def bindp_assertp_true
          bindp_ensure_model bindp_detect)
  have "appends_only (bindp (liftp (dwprocessor ?img)) k)"
    by (intro appends_only_bindp appends_only_liftp k)
  then obtain t where "snd (bindp (liftp (dwprocessor ?img)) k (?l1 @ [Detect ?img]))
      = (?l1 @ [Detect ?img]) @ t"
    unfolding appends_only_def by blast
  then show "\<exists>t. snd (MimicMotionGetPoses_process path_exists dwprocessor draw_pose lstsq
               ref_image pose_images include_body include_hand include_face l)
         = l @ map Download (filter (\<lambda>n. \<not> path_exists n)
                  [''yolox_l.onnx'', ''dw-ll_ucoco_384.onnx''])
             @ Detect (scale_nd 255 (squeeze0 ref_image)) # t"
    unfolding run by auto
qed


theorem getposes_resolution_check_witness:
  "MimicMotionGetPoses_process (\<lambda>n. True) demo_detector demo_draw demo_lstsq demo_ref
      \<lparr>shape4 = (2, 4, 4, 3), data4 = (\<lambda>i h w c. 0)\<rparr> True True True []
     = (Inl AssertionError, [])
   \<and> (\<exists>t. snd (MimicMotionGetPoses_process (\<lambda>n. True) demo_detector demo_draw demo_lstsq
               demo_ref demo_poses True True True [])
         = Detect (scale_nd 255 (squeeze0 demo_ref)) # t)"
  using getposes_resolution_check[of demo_ref "\<lparr>shape4 = (2, 4, 4, 3), data4 = (\<lambda>i h w c. 0)\<rparr>"
          "\<lambda>n. True" demo_detector demo_draw demo_lstsq True True True "[]"]
        getposes_resolution_check[of demo_ref demo_poses
          "\<lambda>n. True" demo_detector demo_draw demo_lstsq True True True "[]"]
  by (simp add: shape_1_3_def demo_ref_def demo_poses_def)

lemma length_frames4: "length (frames4 t) = fst (shape4 t)"
  by (cases "shape4 t") (simp add: frames4_def)

text \<open>
  Claim C10. In every run of the pose node that returns, the second output is the
  first output without its first frame, and so has exactly one frame fewer.
\<close>

theorem getposes_second_output_is_tail:
  assumes "MimicMotionGetPoses_process path_exists dwprocessor draw_pose lstsq
       ref_image pose_images include_body include_hand include_face l = (Inr (out1, out2), l')"
  shows "out2 = tl out1 \<and> length out2 + 1 = length out1"
proof -
  obtain ref_pose ids ref_body h w detected db a b pics refpic where f:
    "shape_1_3 ref_image = shape_1_3 pose_images"
    "dwprocessor (scale_nd 255 (squeeze0 ref_image)) = Inr ref_pose"
    "ref_keypoint_ids (score (bodies ref_pose)) = Inr ids"
    "take_rows (candidate (bodies ref_pose)) ids = Inr ref_body"
    "unpack_hw (scale_nd 255 (squeeze0 ref_image)) = Inr (h, w)"
    "map (\<lambda>img. dwprocessor (A3 img)) (map (scale3 255) (frames4 pose_images))
        = map Inr detected"
    "detected_bodies_of ids detected = Inr db"
    "rescale_params lstsq ref_body db (map (scale3 255) (frames4 pose_images)) h w
        = Inr (a, b)"
    "map (\<lambda>p. draw_pose (rescale_pose a b include_body include_hand include_face p) h w
                 include_body include_hand include_face) detected = map Inr pics"
    "draw_pose ref_pose h w include_body include_hand include_face = Inr refpic"
    "out1 = map permute_frame (scale3 (1 / 255) refpic # map (scale3 (1 / 255)) pics)"
    "out2 = tl out1"
    by (rule getposes_successE[OF assms])
  show ?thesis using f(11,12) by simp
qed

theorem getposes_second_output_is_tail_witness:
  "\<exists>out1 out2 l'. MimicMotionGetPoses_process (\<lambda>n. True) demo_detector demo_draw demo_lstsq
       demo_ref demo_poses True True True [] = (Inr (out1, out2), l')
     \<and> out2 = tl out1 \<and> length out2 + 1 = length out1"
proof -
  obtain out1 out2 l' where r: "MimicMotionGetPoses_process (\<lambda>n. True) demo_detector demo_draw
       demo_lstsq demo_ref demo_poses True True True [] = (Inr (out1, out2), l')"
    using demo_run by blast
  show ?thesis using getposes_second_output_is_tail[OF r] r by blast
qed

text \<open>
  Claim C3. In the body of the rescale loop the face keypoints are transformed
  exactly when \<open>include_hand\<close> is set and the hand keypoints exactly when
  \<open>include_face\<close> is set; the body keypoints follow \<open>include_body\<close>, and
  whatever is not transformed is left as it was.
\<close>

theorem rescale_pose_cross_pairing:
  "faces (rescale_pose a b include_body include_hand include_face p)
     = (if include_hand then map (map (affine a b)) (faces p) else faces p)
   \<and> hands (rescale_pose a b include_body include_hand include_face p)
     = (if include_face then map (map (affine a b)) (hands p) else hands p)
   \<and> candidate (bodies (rescale_pose a b include_body include_hand include_face p))
     = (if include_body then map (affine a b) (candidate (bodies p)) else candidate (bodies p))
   \<and> score (bodies (rescale_pose a b include_body include_hand include_face p))
     = score (bodies p)"
  by (simp add: rescale_pose_def Let_def)

theorem rescale_pose_cross_pairing_witness:
  "faces (rescale_pose (2, 3) (1, 1) False True False (demo_pose 18)) = [[(5, 10)]]
   \<and> hands (rescale_pose (2, 3) (1, 1) False True False (demo_pose 18)) = [[(4, 5)]]
   \<and> faces (rescale_pose (2, 3) (1, 1) False False True (demo_pose 18)) = [[(2, 3)]]
   \<and> hands (rescale_pose (2, 3) (1, 1) False False True (demo_pose 18)) = [[(9, 16)]]"
  using rescale_pose_cross_pairing[of "(2, 3)" "(1, 1)" False True False "demo_pose 18"]
        rescale_pose_cross_pairing[of "(2, 3)" "(1, 1)" False False True "demo_pose 18"]
  by (simp add: demo_pose_def affine_def)

lemma detected_bodies_of_filter:
  "detected_bodies_of ids detected = detected_bodies_of ids (filter has_18 detected)"
  by (simp add: detected_bodies_of_def)

lemma detected_bodies_of_Inr:
  "detected_bodies_of ids detected = Inr db \<longleftrightarrow>
     filter has_18 detected \<noteq> []
     \<and> db = map (\<lambda>p. map (\<lambda>i. candidate (bodies p) ! i) ids) (filter has_18 detected)"
  by (auto simp: detected_bodies_of_def np_stack_def comp_def)

lemma unpack_hw_squeeze:
  "unpack_hw (scale_nd k (squeeze0 t)) = Inr (h, w) \<Longrightarrow> \<exists>c. shape4 t = (1, h, w, c)"
  by (cases "shape4 t")
     (auto simp: unpack_hw_def scale_nd_def squeeze0_def scale3_def split: if_splits)

lemma shape_1_3_transfer:
  "shape_1_3 r = shape_1_3 t \<Longrightarrow> shape4 r = (n, h, w, c') \<Longrightarrow> \<exists>B c. shape4 t = (B, h, w, c)"
  by (cases "shape4 t") (auto simp: shape_1_3_def)

lemma take_rows_Inr:
  "take_rows arr ids = Inr r \<longleftrightarrow>
     list_all (\<lambda>i. i < length arr) ids \<and> r = map (\<lambda>i. arr ! i) ids"
  by (auto simp: take_rows_def)

lemma frames4_Cons_shape:
  assumes "shape4 t = (B, fh, fw, c)" "map (scale3 k) (frames4 t) = img # rest"
  shows "shape3 img = (fh, fw, c)"
proof (cases B)
  case 0
  then show ?thesis using assms by (simp add: frames4_def)
next
  case (Suc n)
  then have "[0..<B] = 0 # [Suc 0..<B]" by (simp add: upt_conv_Cons)
  then show ?thesis using assms by (auto simp: frames4_def scale3_def)
qed

lemma rescale_params_InrD:
  assumes "rescale_params lstsq ref_body db imgs h w = Inr (a, b)"
  obtains ay "by" img rest fh fw c where
    "lstsq (fit_x db) (fit_y ref_body db) = Inr (ay, by)"
    "imgs = img # rest" "shape3 img = (fh, fw, c)" "fw \<noteq> 0" "h \<noteq> 0"
    "a = (ay / (real fh / real fw / real h * real w), ay)"
    "b = (np_mean (map2 (\<lambda>r d. r - d * (ay / (real fh / real fw / real h * real w)))
                  (np_tile (map fst ref_body) (length db)) (concat (map (map fst) db))), by)"
  using assms
  by (auto simp: rescale_params_def np_polyfit1_def x_scale_def Let_def
        split: sum.splits list.splits prod.splits if_splits)

lemma affine_pair:
  "affine (ax, ay) (bx, by) = (\<lambda>q. (fst q * ax + bx, snd q * ay + by))"
  by (simp add: affine_def fun_eq_iff)

lemma rescale_pose_explicit:
  "rescale_pose a b include_body include_hand include_face p =
     \<lparr>bodies = \<lparr>candidate = (if include_body then map (affine a b) (candidate (bodies p))
                              else candidate (bodies p)),
                 score = score (bodies p)\<rparr>,
      faces = (if include_hand then map (map (affine a b)) (faces p) else faces p),
      hands = (if include_face then map (map (affine a b)) (hands p) else hands p)\<rparr>"
  by (cases p, cases "bodies p") (simp add: rescale_pose_def Let_def)


lemma has_18_fun: "has_18 = (\<lambda>p. length (candidate (bodies p)) = 18)"
  by (simp add: fun_eq_iff has_18_def)

lemma getposes_returnsE:
  assumes "MimicMotionGetPoses_process path_exists dwprocessor draw_pose lstsq
       ref_image pose_images include_body include_hand include_face l = (Inr (out1, out2), l')"
  obtains ref_pose ids B h w c detected ay "by" ax bx pics refpic where
    "shape4 pose_images = (B, h, w, c)"
    "dwprocessor (scale_nd 255 (squeeze0 ref_image)) = Inr ref_pose"
    "ref_keypoint_ids (score (bodies ref_pose)) = Inr ids"
    "map (\<lambda>img. dwprocessor (A3 img)) (map (scale3 255) (frames4 pose_images)) = map Inr detected"
    "(filter (\<lambda>p. length (candidate (bodies p)) = 18) detected) \<noteq> []"
    "lstsq (concat (map (\<lambda>p. map (\<lambda>i. snd (candidate (bodies p) ! i)) ids) (filter (\<lambda>p. length (candidate (bodies p)) = 18) detected))) (concat (replicate (length (filter (\<lambda>p. length (candidate (bodies p)) = 18) detected)) (map (\<lambda>i. snd (candidate (bodies ref_pose) ! i)) ids))) = Inr (ay, by)"
    "ax = ay / (real h / real w / real h * real w)"
    "bx = sum_list (map2 (\<lambda>r d. r - d * ax) (concat (replicate (length (filter (\<lambda>p. length (candidate (bodies p)) = 18) detected)) (map (\<lambda>i. fst (candidate (bodies ref_pose) ! i)) ids))) (concat (map (\<lambda>p. map (\<lambda>i. fst (candidate (bodies p) ! i)) ids) (filter (\<lambda>p. length (candidate (bodies p)) = 18) detected)))) / real (length (map2 (\<lambda>r d. r - d * ax) (concat (replicate (length (filter (\<lambda>p. length (candidate (bodies p)) = 18) detected)) (map (\<lambda>i. fst (candidate (bodies ref_pose) ! i)) ids))) (concat (map (\<lambda>p. map (\<lambda>i. fst (candidate (bodies p) ! i)) ids) (filter (\<lambda>p. length (candidate (bodies p)) = 18) detected)))))"
    "map (\<lambda>p. draw_pose \<lparr>bodies = \<lparr>candidate = (if include_body then map (\<lambda>q. (fst q * ax + bx, snd q * ay + by)) (candidate (bodies p)) else candidate (bodies p)), score = score (bodies p)\<rparr>, faces = (if include_hand then map (map (\<lambda>q. (fst q * ax + bx, snd q * ay + by))) (faces p) else faces p), hands = (if include_face then map (map (\<lambda>q. (fst q * ax + bx, snd q * ay + by))) (hands p) else hands p)\<rparr> h w include_body include_hand include_face) detected = map Inr pics"
    "draw_pose ref_pose h w include_body include_hand include_face = Inr refpic"
    "length pics = B"
    "length detected = B"
    "out1 = permute_frame (scale3 (1 / 255) refpic) # map (\<lambda>pic. permute_frame (scale3 (1 / 255) pic)) pics"
    "out2 = tl out1"
proof -
  obtain ref_pose ids ref_body h w detected db a b pics refpic where f:
    "shape_1_3 ref_image = shape_1_3 pose_images"
    "dwprocessor (scale_nd 255 (squeeze0 ref_image)) = Inr ref_pose"
    "ref_keypoint_ids (score (bodies ref_pose)) = Inr ids"
    "take_rows (candidate (bodies ref_pose)) ids = Inr ref_body"
    "unpack_hw (scale_nd 255 (squeeze0 ref_image)) = Inr (h, w)"
    "map (\<lambda>img. dwprocessor (A3 img)) (map (scale3 255) (frames4 pose_images))
        = map Inr detected"
    "detected_bodies_of ids detected = Inr db"
    "rescale_params lstsq ref_body db (map (scale3 255) (frames4 pose_images)) h w
        = Inr (a, b)"
    "map (\<lambda>p. draw_pose (rescale_pose a b include_body include_hand include_face p) h w
                 include_body include_hand include_face) detected = map Inr pics"
    "draw_pose ref_pose h w include_body include_hand include_face = Inr refpic"
    "out1 = map permute_frame (scale3 (1 / 255) refpic # map (scale3 (1 / 255)) pics)"
    "out2 = tl out1"
    by (rule getposes_successE[OF assms])
  obtain c' where r: "shape4 ref_image = (1, h, w, c')"
    using unpack_hw_squeeze[OF f(5)] by blast
  obtain B c where p: "shape4 pose_images = (B, h, w, c)"
    using shape_1_3_transfer[OF f(1) r] by blast
  have rb: "ref_body = map (\<lambda>i. candidate (bodies ref_pose) ! i) ids"
    using f(4) by (simp add: take_rows_Inr)
  have db: "filter has_18 detected \<noteq> []"
      "db = map (\<lambda>p. map (\<lambda>i. candidate (bodies p) ! i) ids) (filter has_18 detected)"
    using f(7) by (simp_all add: detected_bodies_of_Inr)
  obtain ay "by" img rest fh fw c2 where q:
    "lstsq (fit_x db) (fit_y ref_body db) = Inr (ay, by)"
    "map (scale3 255) (frames4 pose_images) = img # rest" "shape3 img = (fh, fw, c2)"
    "fw \<noteq> 0" "h \<noteq> 0"
    "a = (ay / (real fh / real fw / real h * real w), ay)"
    "b = (np_mean (map2 (\<lambda>r d. r - d * (ay / (real fh / real fw / real h * real w)))
                  (np_tile (map fst ref_body) (length db)) (concat (map (map fst) db))), by)"
    by (rule rescale_params_InrD[OF f(8)])
  have sh: "fh = h" "fw = w" using frames4_Cons_shape[OF p q(2)] q(3) by simp_all
  have n: "length detected = B"
    using f(6) length_frames4[of pose_images] p by (metis fst_conv length_map)
  have np: "length pics = B" using f(9) n by (metis length_map)
  define ax where "ax = ay / (real h / real w / real h * real w)"
  define bx where "bx = sum_list (map2 (\<lambda>r d. r - d * ax) (concat (replicate (length (filter (\<lambda>p. length (candidate (bodies p)) = 18) detected)) (map (\<lambda>i. fst (candidate (bodies ref_pose) ! i)) ids))) (concat (map (\<lambda>p. map (\<lambda>i. fst (candidate (bodies p) ! i)) ids) (filter (\<lambda>p. length (candidate (bodies p)) = 18) detected)))) / real (length (map2 (\<lambda>r d. r - d * ax) (concat (replicate (length (filter (\<lambda>p. length (candidate (bodies p)) = 18) detected)) (map (\<lambda>i. fst (candidate (bodies ref_pose) ! i)) ids))) (concat (map (\<lambda>p. map (\<lambda>i. fst (candidate (bodies p) ! i)) ids) (filter (\<lambda>p. length (candidate (bodies p)) = 18) detected)))))"
  have a: "a = (ax, ay)" using q(6) by (simp add: ax_def sh)
  have t1: "np_tile (map fst ref_body) (length db)
      = concat (replicate (length (filter (\<lambda>p. length (candidate (bodies p)) = 18) detected)) (map (\<lambda>i. fst (candidate (bodies ref_pose) ! i)) ids))"
    by (simp add: np_tile_def rb db(2) has_18_fun comp_def)
  have t2: "concat (map (map fst) db) = (concat (map (\<lambda>p. map (\<lambda>i. fst (candidate (bodies p) ! i)) ids) (filter (\<lambda>p. length (candidate (bodies p)) = 18) detected)))"
    by (simp add: db(2) has_18_fun comp_def)
  have b: "b = (bx, by)"
    unfolding bx_def by (rule q(7)[unfolded sh np_mean_def t1 t2, folded ax_def])
  have rp: "rescale_pose (ax, ay) (bx, by) include_body include_hand include_face p
      = \<lparr>bodies = \<lparr>candidate = (if include_body then map (\<lambda>q. (fst q * ax + bx, snd q * ay + by)) (candidate (bodies p)) else candidate (bodies p)), score = score (bodies p)\<rparr>, faces = (if include_hand then map (map (\<lambda>q. (fst q * ax + bx, snd q * ay + by))) (faces p) else faces p), hands = (if include_face then map (map (\<lambda>q. (fst q * ax + bx, snd q * ay + by))) (hands p) else hands p)\<rparr>" for p
    by (simp add: rescale_pose_explicit affine_def)
  show ?thesis
  proof (rule that[where ax = ax and bx = bx])
    show "shape4 pose_images = (B, h, w, c)" by (rule p)
    show "dwprocessor (scale_nd 255 (squeeze0 ref_image)) = Inr ref_pose" by (rule f(2))
    show "ref_keypoint_ids (score (bodies ref_pose)) = Inr ids" by (rule f(3))
    show "map (\<lambda>img. dwprocessor (A3 img)) (map (scale3 255) (frames4 pose_images)) = map Inr detected" by (rule f(6))
    show "(filter (\<lambda>p. length (candidate (bodies p)) = 18) detected) \<noteq> []" using db(1) by (simp add: has_18_fun)
    show "lstsq (concat (map (\<lambda>p. map (\<lambda>i. snd (candidate (bodies p) ! i)) ids) (filter (\<lambda>p. length (candidate (bodies p)) = 18) detected))) (concat (replicate (length (filter (\<lambda>p. length (candidate (bodies p)) = 18) detected)) (map (\<lambda>i. snd (candidate (bodies ref_pose) ! i)) ids))) = Inr (ay, by)"
      using q(1) by (simp add: db(2) rb fit_x_def fit_y_def np_tile_def has_18_fun comp_def)
    show "ax = ay / (real h / real w / real h * real w)" by (rule ax_def)
    show "bx = sum_list (map2 (\<lambda>r d. r - d * ax) (concat (replicate (length (filter (\<lambda>p. length (candidate (bodies p)) = 18) detected)) (map (\<lambda>i. fst (candidate (bodies ref_pose) ! i)) ids))) (concat (map (\<lambda>p. map (\<lambda>i. fst (candidate (bodies p) ! i)) ids) (filter (\<lambda>p. length (candidate (bodies p)) = 18) detected)))) / real (length (map2 (\<lambda>r d. r - d * ax) (concat (replicate (length (filter (\<lambda>p. length (candidate (bodies p)) = 18) detected)) (map (\<lambda>i. fst (candidate (bodies ref_pose) ! i)) ids))) (concat (map (\<lambda>p. map (\<lambda>i. fst (candidate (bodies p) ! i)) ids) (filter (\<lambda>p. length (candidate (bodies p)) = 18) detected)))))" by (rule bx_def)
    show "map (\<lambda>p. draw_pose \<lparr>bodies = \<lparr>candidate = (if include_body then map (\<lambda>q. (fst q * ax + bx, snd q * ay + by)) (candidate (bodies p)) else candidate (bodies p)), score = score (bodies p)\<rparr>, faces = (if include_hand then map (map (\<lambda>q. (fst q * ax + bx, snd q * ay + by))) (faces p) else faces p), hands = (if include_face then map (map (\<lambda>q. (fst q * ax + bx, snd q * ay + by))) (hands p) else hands p)\<rparr> h w include_body include_hand include_face) detected = map Inr pics"
      using f(9) unfolding a b rp .
    show "draw_pose ref_pose h w include_body include_hand include_face = Inr refpic" by (rule f(10))
    show "length pics = B" by (rule np)
    show "length detected = B" by (rule n)
    show "out1 = permute_frame (scale3 (1 / 255) refpic) # map (\<lambda>pic. permute_frame (scale3 (1 / 255) pic)) pics" using f(11) by (simp add: comp_def)
    show "out2 = tl out1" by (rule f(12))
  qed
qed


text \<open>
  Claim C7. In every run of the pose node that returns, for a batch of \<open>B\<close> pose
  images of height \<open>h\<close> and width \<open>w\<close> the first output has \<open>B + 1\<close> frames:
  the rendering of the reference pose, followed by the renderings of the rescaled
  poses of the input frames, in the order of the input. The rescaling is spelled
  out: the solver is called on the second coordinates of the selected keypoints
  of the frames with 18 body keypoints and on the reference's second
  coordinates, repeated once per such frame; its answer \<open>(ay, by)\<close> gives the
  vertical scale and offset, \<open>ax\<close> and \<open>bx\<close> are derived from it as in the
  source, and every detected pose is handed to the drawing routine with the
  transform \<open>(x, y) \<mapsto> (x * ax + bx, y * ay + by)\<close> applied to the keypoint
  sets that the toggles select.
\<close>

theorem getposes_output_with_ref:
  assumes "MimicMotionGetPoses_process path_exists dwprocessor draw_pose lstsq
       ref_image pose_images include_body include_hand include_face l = (Inr (out1, out2), l')"
  shows "\<exists>ref_pose ids B h w c detected ay by refpic pics.
    let ref_np = scale_nd 255 (squeeze0 ref_image);
        frames = map (scale3 255) (frames4 pose_images);
        kept = filter (\<lambda>p. length (candidate (bodies p)) = 18) detected;
        xs = concat (map (\<lambda>p. map (\<lambda>i. fst (candidate (bodies p) ! i)) ids) kept);
        ys = concat (map (\<lambda>p. map (\<lambda>i. snd (candidate (bodies p) ! i)) ids) kept);
        ref_xs = map (\<lambda>i. fst (candidate (bodies ref_pose) ! i)) ids;
        ref_ys = map (\<lambda>i. snd (candidate (bodies ref_pose) ! i)) ids;
        ax = ay / (real h / real w / real h * real w);
        ds = map2 (\<lambda>r d. r - d * ax) (concat (replicate (length kept) ref_xs)) xs;
        bx = sum_list ds / real (length ds);
        T = (\<lambda>q. (fst q * ax + bx, snd q * ay + by));
        rescaled = (\<lambda>p.
          \<lparr>bodies = \<lparr>candidate = (if include_body then map T (candidate (bodies p))
                                   else candidate (bodies p)),
                      score = score (bodies p)\<rparr>,
           faces = (if include_hand then map (map T) (faces p) else faces p),
           hands = (if include_face then map (map T) (hands p) else hands p)\<rparr>)
    in shape4 pose_images = (B, h, w, c)
     \<and> dwprocessor ref_np = Inr ref_pose
     \<and> ref_keypoint_ids (score (bodies ref_pose)) = Inr ids
     \<and> map (\<lambda>img. dwprocessor (A3 img)) frames = map Inr detected
     \<and> kept \<noteq> []
     \<and> lstsq ys (concat (replicate (length kept) ref_ys)) = Inr (ay, by)
     \<and> draw_pose ref_pose h w include_body include_hand include_face = Inr refpic
     \<and> map (\<lambda>p. draw_pose (rescaled p) h w include_body include_hand include_face) detected
          = map Inr pics
     \<and> length pics = B
     \<and> length out1 = B + 1
     \<and> out1 = permute_frame (scale3 (1 / 255) refpic)
                # map (\<lambda>pic. permute_frame (scale3 (1 / 255) pic)) pics"
proof -
  obtain ref_pose ids B h w c detected ay "by" ax bx pics refpic where e:
    "shape4 pose_images = (B, h, w, c)"
    "dwprocessor (scale_nd 255 (squeeze0 ref_image)) = Inr ref_pose"
    "ref_keypoint_ids (score (bodies ref_pose)) = Inr ids"
    "map (\<lambda>img. dwprocessor (A3 img)) (map (scale3 255) (frames4 pose_images)) = map Inr detected"
    "(filter (\<lambda>p. length (candidate (bodies p)) = 18) detected) \<noteq> []"
    "lstsq (concat (map (\<lambda>p. map (\<lambda>i. snd (candidate (bodies p) ! i)) ids) (filter (\<lambda>p. length (candidate (bodies p)) = 18) detected))) (concat (replicate (length (filter (\<lambda>p. length (candidate (bodies p)) = 18) detected)) (map (\<lambda>i. snd (candidate (bodies ref_pose) ! i)) ids))) = Inr (ay, by)"
    "ax = ay / (real h / real w / real h * real w)"
    "bx = sum_list (map2 (\<lambda>r d. r - d * ax) (concat (replicate (length (filter (\<lambda>p. length (candidate (bodies p)) = 18) detected)) (map (\<lambda>i. fst (candidate (bodies ref_pose) ! i)) ids))) (concat (map (\<lambda>p. map (\<lambda>i. fst (candidate (bodies p) ! i)) ids) (filter (\<lambda>p. length (candidate (bodies p)) = 18) detected)))) / real (length (map2 (\<lambda>r d. r - d * ax) (concat (replicate (length (filter (\<lambda>p. length (candidate (bodies p)) = 18) detected)) (map (\<lambda>i. fst (candidate (bodies ref_pose) ! i)) ids))) (concat (map (\<lambda>p. map (\<lambda>i. fst (candidate (bodies p) ! i)) ids) (filter (\<lambda>p. length (candidate (bodies p)) = 18) detected)))))"
    "map (\<lambda>p. draw_pose \<lparr>bodies = \<lparr>candidate = (if include_body then map (\<lambda>q. (fst q * ax + bx, snd q * ay + by)) (candidate (bodies p)) else candidate (bodies p)), score = score (bodies p)\<rparr>, faces = (if include_hand then map (map (\<lambda>q. (fst q * ax + bx, snd q * ay + by))) (faces p) else faces p), hands = (if include_face then map (map (\<lambda>q. (fst q * ax + bx, snd q * ay + by))) (hands p) else hands p)\<rparr> h w include_body include_hand include_face) detected = map Inr pics"
    "draw_pose ref_pose h w include_body include_hand include_face = Inr refpic"
    "length pics = B"
    "length detected = B"
    "out1 = permute_frame (scale3 (1 / 255) refpic) # map (\<lambda>pic. permute_frame (scale3 (1 / 255) pic)) pics"
    "out2 = tl out1"
    by (rule getposes_returnsE[OF assms])
  have lo: "length out1 = B + 1" using e(13) e(11) by simp
  have c: "let ref_np = scale_nd 255 (squeeze0 ref_image);
        frames = map (scale3 255) (frames4 pose_images);
        kept = filter (\<lambda>p. length (candidate (bodies p)) = 18) detected;
        xs = concat (map (\<lambda>p. map (\<lambda>i. fst (candidate (bodies p) ! i)) ids) kept);
        ys = concat (map (\<lambda>p. map (\<lambda>i. snd (candidate (bodies p) ! i)) ids) kept);
        ref_xs = map (\<lambda>i. fst (candidate (bodies ref_pose) ! i)) ids;
        ref_ys = map (\<lambda>i. snd (candidate (bodies ref_pose) ! i)) ids;
        ax = ay / (real h / real w / real h * real w);
        ds = map2 (\<lambda>r d. r - d * ax) (concat (replicate (length kept) ref_xs)) xs;
        bx = sum_list ds / real (length ds);
        T = (\<lambda>q. (fst q * ax + bx, snd q * ay + by));
        rescaled = (\<lambda>p.
          \<lparr>bodies = \<lparr>candidate = (if include_body then map T (candidate (bodies p))
                                   else candidate (bodies p)),
                      score = score (bodies p)\<rparr>,
           faces = (if include_hand then map (map T) (faces p) else faces p),
           hands = (if include_face then map (map T) (hands p) else hands p)\<rparr>)
    in shape4 pose_images = (B, h, w, c)
     \<and> dwprocessor ref_np = Inr ref_pose
     \<and> ref_keypoint_ids (score (bodies ref_pose)) = Inr ids
     \<and> map (\<lambda>img. dwprocessor (A3 img)) frames = map Inr detected
     \<and> kept \<noteq> []
     \<and> lstsq ys (concat (replicate (length kept) ref_ys)) = Inr (ay, by)
     \<and> draw_pose ref_pose h w include_body include_hand include_face = Inr refpic
     \<and> map (\<lambda>p. draw_pose (rescaled p) h w include_body include_hand include_face) detected
          = map Inr pics
     \<and> length pics = B
     \<and> length out1 = B + 1
     \<and> out1 = permute_frame (scale3 (1 / 255) refpic)
                # map (\<lambda>pic. permute_frame (scale3 (1 / 255) pic)) pics"
    unfolding Let_def
    by (intro conjI)
       (rule e(1) e(2) e(3) e(4) e(5) e(6) e(10) e(9)[unfolded e(8) e(7)] e(11) lo e(13))+
  show ?thesis by (intro exI) (rule c)
qed

lemma bindp_liftp:
  "bindp (liftp r) f s = (case r of Inl e \<Rightarrow> (Inl e, s) | Inr x \<Rightarrow> f x s)"
  by (simp add: bindp_def liftp_def split: sum.splits)

lemma bindp_mapMp_detect:
  assumes "map (\<lambda>img. dwprocessor (A3 img)) xs = map Inr ys"
  shows "bindp (mapMp (\<lambda>img. detect dwprocessor (A3 img)) xs) f l
           = f ys (l @ map (\<lambda>img. Detect (A3 img)) xs)"
proof -
  have "mapMp (\<lambda>img. detect dwprocessor (A3 img)) xs l
          = (Inr ys, l @ map (\<lambda>img. Detect (A3 img)) xs)"
    using assms by (simp add: mapMp_detect)
  then show ?thesis by (simp add: bindp_def)
qed

lemma getposes_no_complete_frame:
  assumes "shape_1_3 ref_image = shape_1_3 pose_images"
    and "dwprocessor (scale_nd 255 (squeeze0 ref_image)) = Inr ref_pose"
    and "ref_keypoint_ids (score (bodies ref_pose)) = Inr ids"
    and "take_rows (candidate (bodies ref_pose)) ids = Inr ref_body"
    and "unpack_hw (scale_nd 255 (squeeze0 ref_image)) = Inr (h, w)"
    and "map (\<lambda>img. dwprocessor (A3 img)) (map (scale3 255) (frames4 pose_images))
          = map Inr detected"
    and "filter (\<lambda>p. length (candidate (bodies p)) = 18) detected = []"
  shows "fst (MimicMotionGetPoses_process path_exists dwprocessor draw_pose lstsq
        ref_image pose_images include_body include_hand include_face l) = Inl ValueError"
proof -
  have "detected_bodies_of ids detected = Inl ValueError"
    using assms(7) by (simp add: detected_bodies_of_def np_stack_def has_18_fun)
  then show ?thesis
    using assms(1,2,3,4,5)
    by (simp add: MimicMotionGetPoses_process_def Let_def bindp_assertp_true
          bindp_ensure_model bindp_detect bindp_liftp bindp_mapMp_detect[OF assms(6)])
qed

text \<open>
  Claim C6, as it holds of the code. If the detector finds exactly 18 body
  keypoints in no frame, the node raises \<^verbatim>\<open>ValueError\<close> (there is nothing
  to stack) and has no output. In every run that returns, the solver is called
  on vectors built from the frames with exactly 18 body keypoints only, at the
  selected reference indices, while every detected frame, with 18 keypoints or
  not, is rescaled with the fitted parameters, rendered, and present in the
  output at its place.
\<close>

theorem getposes_fit_skips_incomplete_frames:
  "(\<forall>ref_pose ids ref_body h w detected.
       shape_1_3 ref_image = shape_1_3 pose_images
     \<and> dwprocessor (scale_nd 255 (squeeze0 ref_image)) = Inr ref_pose
     \<and> ref_keypoint_ids (score (bodies ref_pose)) = Inr ids
     \<and> take_rows (candidate (bodies ref_pose)) ids = Inr ref_body
     \<and> unpack_hw (scale_nd 255 (squeeze0 ref_image)) = Inr (h, w)
     \<and> map (\<lambda>img. dwprocessor (A3 img)) (map (scale3 255) (frames4 pose_images))
          = map Inr detected
     \<and> filter (\<lambda>p. length (candidate (bodies p)) = 18) detected = []
     \<longrightarrow> fst (MimicMotionGetPoses_process path_exists dwprocessor draw_pose lstsq
        ref_image pose_images include_body include_hand include_face l) = Inl ValueError)
   \<and> (\<forall>out1 out2 l'.
       MimicMotionGetPoses_process path_exists dwprocessor draw_pose lstsq
        ref_image pose_images include_body include_hand include_face l = (Inr (out1, out2), l')
     \<longrightarrow> (\<exists>ref_pose ids h w detected ay by pics.
    let ref_np = scale_nd 255 (squeeze0 ref_image);
        frames = map (scale3 255) (frames4 pose_images);
        kept = filter (\<lambda>p. length (candidate (bodies p)) = 18) detected;
        xs = concat (map (\<lambda>p. map (\<lambda>i. fst (candidate (bodies p) ! i)) ids) kept);
        ys = concat (map (\<lambda>p. map (\<lambda>i. snd (candidate (bodies p) ! i)) ids) kept);
        ref_xs = map (\<lambda>i. fst (candidate (bodies ref_pose) ! i)) ids;
        ref_ys = map (\<lambda>i. snd (candidate (bodies ref_pose) ! i)) ids;
        ax = ay / (real h / real w / real h * real w);
        ds = map2 (\<lambda>r d. r - d * ax) (concat (replicate (length kept) ref_xs)) xs;
        bx = sum_list ds / real (length ds);
        T = (\<lambda>q. (fst q * ax + bx, snd q * ay + by));
        rescaled = (\<lambda>p.
          \<lparr>bodies = \<lparr>candidate = (if include_body then map T (candidate (bodies p))
                                   else candidate (bodies p)),
                      score = score (bodies p)\<rparr>,
           faces = (if include_hand then map (map T) (faces p) else faces p),
           hands = (if include_face then map (map T) (hands p) else hands p)\<rparr>)
    in dwprocessor ref_np = Inr ref_pose
     \<and> ref_keypoint_ids (score (bodies ref_pose)) = Inr ids
     \<and> map (\<lambda>img. dwprocessor (A3 img)) frames = map Inr detected
     \<and> kept \<noteq> []
     \<and> lstsq ys (concat (replicate (length kept) ref_ys)) = Inr (ay, by)
     \<and> map (\<lambda>p. draw_pose (rescaled p) h w include_body include_hand include_face) detected
          = map Inr pics
     \<and> length detected = fst (shape4 pose_images)
     \<and> length (tl out1) = length detected
     \<and> tl out1 = map (\<lambda>pic. permute_frame (scale3 (1 / 255) pic)) pics))"
proof (intro conjI allI impI)
  fix ref_pose ids ref_body h w detected
  assume a: "shape_1_3 ref_image = shape_1_3 pose_images
     \<and> dwprocessor (scale_nd 255 (squeeze0 ref_image)) = Inr ref_pose
     \<and> ref_keypoint_ids (score (bodies ref_pose)) = Inr ids
     \<and> take_rows (candidate (bodies ref_pose)) ids = Inr ref_body
     \<and> unpack_hw (scale_nd 255 (squeeze0 ref_image)) = Inr (h, w)
     \<and> map (\<lambda>img. dwprocessor (A3 img)) (map (scale3 255) (frames4 pose_images))
          = map Inr detected
     \<and> filter (\<lambda>p. length (candidate (bodies p)) = 18) detected = []"
  show "fst (MimicMotionGetPoses_process path_exists dwprocessor draw_pose lstsq
        ref_image pose_images include_body include_hand include_face l) = Inl ValueError"
    using a by (intro getposes_no_complete_frame[of ref_image pose_images dwprocessor ref_pose
                  ids ref_body h w detected]) simp_all
next
  fix out1 out2 l'
  assume r: "MimicMotionGetPoses_process path_exists dwprocessor draw_pose lstsq
        ref_image pose_images include_body include_hand include_face l = (Inr (out1, out2), l')"
  obtain ref_pose ids B h w c detected ay "by" ax bx pics refpic where e:
    "shape4 pose_images = (B, h, w, c)"
    "dwprocessor (scale_nd 255 (squeeze0 ref_image)) = Inr ref_pose"
    "ref_keypoint_ids (score (bodies ref_pose)) = Inr ids"
    "map (\<lambda>img. dwprocessor (A3 img)) (map (scale3 255) (frames4 pose_images)) = map Inr detected"
    "(filter (\<lambda>p. length (candidate (bodies p)) = 18) detected) \<noteq> []"
    "lstsq (concat (map (\<lambda>p. map (\<lambda>i. snd (candidate (bodies p) ! i)) ids) (filter (\<lambda>p. length (candidate (bodies p)) = 18) detected))) (concat (replicate (length (filter (\<lambda>p. length (candidate (bodies p)) = 18) detected)) (map (\<lambda>i. snd (candidate (bodies ref_pose) ! i)) ids))) = Inr (ay, by)"
    "ax = ay / (real h / real w / real h * real w)"
    "bx = sum_list (map2 (\<lambda>r d. r - d * ax) (concat (replicate (length (filter (\<lambda>p. length (candidate (bodies p)) = 18) detected)) (map (\<lambda>i. fst (candidate (bodies ref_pose) ! i)) ids))) (concat (map (\<lambda>p. map (\<lambda>i. fst (candidate (bodies p) ! i)) ids) (filter (\<lambda>p. length (candidate (bodies p)) = 18) detected)))) / real (length (map2 (\<lambda>r d. r - d * ax) (concat (replicate (length (filter (\<lambda>p. length (candidate (bodies p)) = 18) detected)) (map (\<lambda>i. fst (candidate (bodies ref_pose) ! i)) ids))) (concat (map (\<lambda>p. map (\<lambda>i. fst (candidate (bodies p) ! i)) ids) (filter (\<lambda>p. length (candidate (bodies p)) = 18) detected)))))"
    "map (\<lambda>p. draw_pose \<lparr>bodies = \<lparr>candidate = (if include_body then map (\<lambda>q. (fst q * ax + bx, snd q * ay + by)) (candidate (bodies p)) else candidate (bodies p)), score = score (bodies p)\<rparr>, faces = (if include_hand then map (map (\<lambda>q. (fst q * ax + bx, snd q * ay + by))) (faces p) else faces p), hands = (if include_face then map (map (\<lambda>q. (fst q * ax + bx, snd q * ay + by))) (hands p) else hands p)\<rparr> h w include_body include_hand include_face) detected = map Inr pics"
    "draw_pose ref_pose h w include_body include_hand include_face = Inr refpic"
    "length pics = B"
    "length detected = B"
    "out1 = permute_frame (scale3 (1 / 255) refpic) # map (\<lambda>pic. permute_frame (scale3 (1 / 255) pic)) pics"
    "out2 = tl out1"
    by (rule getposes_returnsE[OF r])
  have n: "length detected = fst (shape4 pose_images)" using e(12) e(1) by simp
  have t: "tl out1 = map (\<lambda>pic. permute_frame (scale3 (1 / 255) pic)) pics"
    using e(13) by simp
  have tn: "length (tl out1) = length detected" using t e(11) e(12) by simp
  have c: "let ref_np = scale_nd 255 (squeeze0 ref_image);
        frames = map (scale3 255) (frames4 pose_images);
        kept = filter (\<lambda>p. length (candidate (bodies p)) = 18) detected;
        xs = concat (map (\<lambda>p. map (\<lambda>i. fst (candidate (bodies p) ! i)) ids) kept);
        ys = concat (map (\<lambda>p. map (\<lambda>i. snd (candidate (bodies p) ! i)) ids) kept);
        ref_xs = map (\<lambda>i. fst (candidate (bodies ref_pose) ! i)) ids;
        ref_ys = map (\<lambda>i. snd (candidate (bodies ref_pose) ! i)) ids;
        ax = ay / (real h / real w / real h * real w);
        ds = map2 (\<lambda>r d. r - d * ax) (concat (replicate (length kept) ref_xs)) xs;
        bx = sum_list ds / real (length ds);
        T = (\<lambda>q. (fst q * ax + bx, snd q * ay + by));
        rescaled = (\<lambda>p.
          \<lparr>bodies = \<lparr>candidate = (if include_body then map T (candidate (bodies p))
                                   else candidate (bodies p)),
                      score = score (bodies p)\<rparr>,
           faces = (if include_hand then map (map T) (faces p) else faces p),
           hands = (if include_face then map (map T) (hands p) else hands p)\<rparr>)
    in dwprocessor ref_np = Inr ref_pose
     \<and> ref_keypoint_ids (score (bodies ref_pose)) = Inr ids
     \<and> map (\<lambda>img. dwprocessor (A3 img)) frames = map Inr detected
     \<and> kept \<noteq> []
     \<and> lstsq ys (concat (replicate (length kept) ref_ys)) = Inr (ay, by)
     \<and> map (\<lambda>p. draw_pose (rescaled p) h w include_body include_hand include_face) detected
          = map Inr pics
     \<and> length detected = fst (shape4 pose_images)
     \<and> length (tl out1) = length detected
     \<and> tl out1 = map (\<lambda>pic. permute_frame (scale3 (1 / 255) pic)) pics"
    unfolding Let_def
    by (intro conjI)
       (rule e(2) e(3) e(4) e(5) e(6) e(9)[unfolded e(8) e(7)] n tn t)+
  show "\<exists>ref_pose ids h w detected ay by pics.
    let ref_np = scale_nd 255 (squeeze0 ref_image);
        frames = map (scale3 255) (frames4 pose_images);
        kept = filter (\<lambda>p. length (candidate (bodies p)) = 18) detected;
        xs = concat (map (\<lambda>p. map (\<lambda>i. fst (candidate (bodies p) ! i)) ids) kept);
        ys = concat (map (\<lambda>p. map (\<lambda>i. snd (candidate (bodies p) ! i)) ids) kept);
        ref_xs = map (\<lambda>i. fst (candidate (bodies ref_pose) ! i)) ids;
        ref_ys = map (\<lambda>i. snd (candidate (bodies ref_pose) ! i)) ids;
        ax = ay / (real h / real w / real h * real w);
        ds = map2 (\<lambda>r d. r - d * ax) (concat (replicate (length kept) ref_xs)) xs;
        bx = sum_list ds / real (length ds);
        T = (\<lambda>q. (fst q * ax + bx, snd q * ay + by));
        rescaled = (\<lambda>p.
          \<lparr>bodies = \<lparr>candidate = (if include_body then map T (candidate (bodies p))
                                   else candidate (bodies p)),
                      score = score (bodies p)\<rparr>,
           faces = (if include_hand then map (map T) (faces p) else faces p),
           hands = (if include_face then map (map T) (hands p) else hands p)\<rparr>)
    in dwprocessor ref_np = Inr ref_pose
     \<and> ref_keypoint_ids (score (bodies ref_pose)) = Inr ids
     \<and> map (\<lambda>img. dwprocessor (A3 img)) frames = map Inr detected
     \<and> kept \<noteq> []
     \<and> lstsq ys (concat (replicate (length kept) ref_ys)) = Inr (ay, by)
     \<and> map (\<lambda>p. draw_pose (rescaled p) h w include_body include_hand include_face) detected
          = map Inr pics
     \<and> length detected = fst (shape4 pose_images)
     \<and> length (tl out1) = length detected
     \<and> tl out1 = map (\<lambda>pic. permute_frame (scale3 (1 / 255) pic)) pics"
    by (intro exI) (rule c)
qed


theorem getposes_output_with_ref_witness:
  "\<exists>out1 out2 l'. MimicMotionGetPoses_process (\<lambda>n. True) demo_detector demo_draw demo_lstsq
       demo_ref demo_poses True True True [] = (Inr (out1, out2), l') \<and> length out1 = 3"
proof -
  obtain out1 out2 l' where r: "MimicMotionGetPoses_process (\<lambda>n. True) demo_detector demo_draw demo_lstsq
       demo_ref demo_poses True True True [] = (Inr (out1, out2), l')"
    using demo_run by blast
  have "length out1 = 3"
    using getposes_output_with_ref[OF r] by (auto simp: Let_def demo_poses_def)
  then show ?thesis using r by blast
qed

text \<open>
  A batch in which the detector finds 17 body keypoints in every frame: the node
  raises, so these frames are in no output.
\<close>

theorem getposes_all_incomplete_counterexample:
  "fst (MimicMotionGetPoses_process demo_exists demo_detector demo_draw demo_lstsq
       demo_ref demo_poses_incomplete True True True []) = Inl ValueError
   \<and> demo_detector (A3 (scale3 255 (hd (frames4 demo_poses_incomplete)))) = Inr (demo_pose 17)
   \<and> length (candidate (bodies (demo_pose 17))) = 17"
  by (simp add: MimicMotionGetPoses_process_def Let_def prog_defs detect_def draw_def
      ensure_model_def shape_1_3_def demo_ref_def demo_poses_incomplete_def squeeze0_def
      scale_nd_def scale3_def demo_detector_def demo_pose_def ref_keypoint_ids_def
      base_keypoint_id_def take_rows_def unpack_hw_def frames4_def upt_conv_Cons
      detected_bodies_of_def has_18_def np_stack_def demo_exists_def)

theorem getposes_fit_skips_incomplete_frames_witness:
  "(\<exists>out1 out2 l'. MimicMotionGetPoses_process (\<lambda>n. True) demo_detector demo_draw demo_lstsq
       demo_ref demo_poses True True True [] = (Inr (out1, out2), l') \<and> length (tl out1) = 2)
   \<and> fst (MimicMotionGetPoses_process (\<lambda>n. True) demo_detector demo_draw demo_lstsq
           demo_ref demo_poses_incomplete True True True []) = Inl ValueError"
proof -
  obtain out1 out2 l' where r: "MimicMotionGetPoses_process (\<lambda>n. True) demo_detector demo_draw demo_lstsq
       demo_ref demo_poses True True True [] = (Inr (out1, out2), l')"
    using demo_run by blast
  have "length (tl out1) = 2"
    using getposes_fit_skips_incomplete_frames[where ref_image = demo_ref
        and pose_images = demo_poses and dwprocessor = demo_detector
        and path_exists = "\<lambda>n. True" and draw_pose = demo_draw and lstsq = demo_lstsq
        and include_body = True and include_hand = True and include_face = True and l = "[]",
        THEN conjunct2, rule_format, OF r]
    by (auto simp: Let_def demo_poses_def)
  then have a: "\<exists>out1 out2 l'. MimicMotionGetPoses_process (\<lambda>n. True) demo_detector demo_draw demo_lstsq
       demo_ref demo_poses True True True [] = (Inr (out1, out2), l')
      \<and> length (tl out1) = 2"
    using r by blast
  have b: "fst (MimicMotionGetPoses_process (\<lambda>n. True) demo_detector demo_draw demo_lstsq
           demo_ref demo_poses_incomplete True True True []) = Inl ValueError"
    by (rule getposes_fit_skips_incomplete_frames[where ref_image = demo_ref
        and pose_images = demo_poses_incomplete and dwprocessor = demo_detector
        and path_exists = "\<lambda>n. True" and draw_pose = demo_draw and lstsq = demo_lstsq
        and include_body = True and include_hand = True and include_face = True and l = "[]",
        THEN conjunct1, rule_format, where ref_pose = "demo_pose 18"
        and ids = base_keypoint_id
        and ref_body = "map (\<lambda>i. candidate (bodies (demo_pose 18)) ! i) base_keypoint_id"
        and h = 2 and w = 2 and detected = "[demo_pose 17, demo_pose 17]"])
       (simp add: shape_1_3_def demo_ref_def demo_poses_incomplete_def squeeze0_def
          scale_nd_def scale3_def demo_detector_def demo_pose_def ref_keypoint_ids_def
          base_keypoint_id_def take_rows_def unpack_hw_def frames4_def upt_conv_Cons)
  show ?thesis using a b by blast
qed

end
